theory Spec2Isabelle
  imports Main "HOL-Library.AList"
begin

section \<open>Values, errors and configuration\<close>

text \<open>
  A \<open>uuid.UUID\<close> is its 128-bit integer value; a \<open>datetime\<close> (always UTC in this
  code base) is a number of microseconds since the epoch, and a \<open>timedelta\<close> a number of
  microseconds.  Python dictionaries holding JSON-like claims are association lists in
  insertion order.
\<close>

type_synonym uuid = int
type_synonym datetime = int
type_synonym timedelta = int

datatype pyval = PNone | PBool bool | PInt int | PStr string | PDatetime datetime

type_synonym pydict = "(string \<times> pyval) list"

text \<open>The exception classes of \<open>app/core/exceptions.py\<close> and \<open>app/core/oauth.py\<close>, each with
  its message, and the library exceptions the flows can meet.\<close>

datatype error =
    InvalidCredentialsError string
  | InvalidTokenError string
  | UserAlreadyExistsError string
  | UserNotFoundError string
  | GoogleOAuthError string
  | ValidationError string
  | PlayerNameTakenError string
  | ValueError string
  | KeyError string
  | AttributeError string
  | IntegrityError string
  | MultipleResultsFound

fun str_error :: "error \<Rightarrow> string" where
  "str_error (InvalidCredentialsError m) = m"
| "str_error (InvalidTokenError m) = m"
| "str_error (UserAlreadyExistsError m) = m"
| "str_error (UserNotFoundError m) = m"
| "str_error (GoogleOAuthError m) = m"
| "str_error (ValidationError m) = m"
| "str_error (PlayerNameTakenError m) = m"
| "str_error (ValueError m) = m"
| "str_error (KeyError m) = m"
| "str_error (AttributeError m) = m"
| "str_error (IntegrityError m) = m"
| "str_error MultipleResultsFound = ''Multiple rows were found when one or none was required''"

text \<open>Python truthiness, \<open>dict.get\<close> and \<open>dict.update\<close>.\<close>

fun truthy :: "pyval \<Rightarrow> bool" where
  "truthy PNone = False"
| "truthy (PBool b) = b"
| "truthy (PInt n) = (n \<noteq> 0)"
| "truthy (PStr s) = (s \<noteq> [])"
| "truthy (PDatetime t) = True"

definition dict_get :: "pydict \<Rightarrow> string \<Rightarrow> pyval" where
  "dict_get d k = (case map_of d k of None \<Rightarrow> PNone | Some v \<Rightarrow> v)"

definition dict_update :: "pydict \<Rightarrow> pydict \<Rightarrow> pydict" where
  "dict_update d e = foldl (\<lambda>acc (k, v). AList.update k v acc) d e"

definition minutes :: "int \<Rightarrow> timedelta" where
  "minutes m = m * 60000000"

definition days :: "int \<Rightarrow> timedelta" where
  "days d = d * 86400000000"

text \<open>\<open>calendar.timegm(dt.utctimetuple())\<close>: whole seconds, the microseconds dropped.\<close>

definition timegm :: "datetime \<Rightarrow> int" where
  "timegm t = t div 1000000"

text \<open>\<open>app.config.settings\<close>: the module is not part of the sources, so the values the
  flows read from it are a parameter.\<close>

record settings =
  JWT_SECRET_KEY :: string
  JWT_ALGORITHM :: string
  ACCESS_TOKEN_EXPIRE_MINUTES :: int
  REFRESH_TOKEN_EXPIRE_DAYS :: int
  GOOGLE_CLIENT_ID :: string

text \<open>The id-token claims \<open>google.oauth2.id_token.verify_oauth2_token\<close> returns, and the
  dictionary \<open>verify_google_token\<close> builds from them (\<open>None\<close> is an absent claim).\<close>

record idinfo =
  i_iss :: "string option"
  i_email :: "string option"
  i_sub :: "string option"
  i_name :: "string option"
  i_picture :: "string option"
  i_given_name :: "string option"
  i_family_name :: "string option"
  i_email_verified :: "bool option"
  i_locale :: "string option"

record google_user =
  g_email :: "string option"
  g_sub :: "string option"
  g_name :: "string option"
  g_picture :: "string option"
  g_given_name :: "string option"
  g_family_name :: "string option"
  g_email_verified :: bool
  g_locale :: "string option"

text \<open>
  The third-party libraries and the built-ins of Python are external collaborators and
  enter as parameters; a result \<open>Inl e\<close> is the exception the call raised:
  \<^item> \<open>jwt_encode claims key algorithm\<close> and \<open>jwt_decode token key algorithms now\<close> are
    \<open>jose.jwt.encode\<close> and \<open>jose.jwt.decode\<close> (\<open>None\<close> is a raised \<open>JWTError\<close>; \<open>now\<close> is the
    clock the library reads to validate \<open>exp\<close>);
  \<^item> \<open>py_int16\<close> is Python's \<open>int(s, 16)\<close> (\<open>None\<close> is \<open>ValueError\<close>) and \<open>uuid_str\<close> is
    \<open>str\<close> of a \<open>UUID\<close>;
  \<^item> \<open>str_lower\<close> is \<open>str.lower()\<close>, \<open>utf8_encode\<close> is \<open>str.encode("utf-8")\<close> and
    \<open>utf8_decode\<close> is \<open>bytes.decode("utf-8")\<close>;
  \<^item> \<open>bcrypt_hashpw password salt\<close> and \<open>bcrypt_checkpw password hashed_password\<close> are
    \<open>bcrypt.hashpw\<close> and \<open>bcrypt.checkpw\<close>;
  \<^item> \<open>verify_oauth2_token token client_id\<close> is Google's id-token verification.
\<close>

record libs =
  jwt_encode :: "pydict \<Rightarrow> string \<Rightarrow> string \<Rightarrow> string"
  jwt_decode :: "string \<Rightarrow> string \<Rightarrow> string list \<Rightarrow> datetime \<Rightarrow> pydict option"
  py_int16 :: "string \<Rightarrow> int option"
  uuid_str :: "uuid \<Rightarrow> string"
  str_lower :: "string \<Rightarrow> string"
  utf8_encode :: "string \<Rightarrow> error + string"
  utf8_decode :: "string \<Rightarrow> error + string"
  bcrypt_hashpw :: "string \<Rightarrow> string \<Rightarrow> error + string"
  bcrypt_checkpw :: "string \<Rightarrow> string \<Rightarrow> error + bool"
  verify_oauth2_token :: "string \<Rightarrow> string \<Rightarrow> error + idinfo"

section \<open>app/core/security.py\<close>

subsection \<open>Passwords\<close>

text \<open>
  \<open>verify_password\<close> and \<open>hash_password\<close> have no exception handler, so whatever an
  \<open>encode\<close>, a \<open>decode\<close> or bcrypt raises propagates.  The arguments of a call are
  evaluated from left to right.  \<open>salt\<close> is the value \<open>bcrypt.gensalt()\<close> returned.
\<close>

definition verify_password :: "libs \<Rightarrow> string \<Rightarrow> string \<Rightarrow> error + bool" where
  "verify_password L plain_password hashed_password =
     (case utf8_encode L plain_password of
        Inl e \<Rightarrow> Inl e
      | Inr plain_bytes \<Rightarrow>
          (case utf8_encode L hashed_password of
             Inl e \<Rightarrow> Inl e
           | Inr hashed_bytes \<Rightarrow> bcrypt_checkpw L plain_bytes hashed_bytes))"

definition hash_password :: "libs \<Rightarrow> string \<Rightarrow> string \<Rightarrow> error + string" where
  "hash_password L salt password =
     (case utf8_encode L password of
        Inl e \<Rightarrow> Inl e
      | Inr password_bytes \<Rightarrow>
          (case bcrypt_hashpw L password_bytes salt of
             Inl e \<Rightarrow> Inl e
           | Inr hashed \<Rightarrow> utf8_decode L hashed))"

subsection \<open>Tokens\<close>

datatype subject = SubjStr string | SubjUUID uuid

fun str_subject :: "libs \<Rightarrow> subject \<Rightarrow> string" where
  "str_subject L (SubjStr s) = s"
| "str_subject L (SubjUUID u) = uuid_str L u"

text \<open>\<open>if expires_delta:\<close> a \<open>timedelta\<close> of zero is falsy, like \<open>None\<close>.\<close>

definition token_expire :: "datetime \<Rightarrow> timedelta option \<Rightarrow> timedelta \<Rightarrow> datetime" where
  "token_expire now expires_delta default_delta =
     (case expires_delta of
        Some d \<Rightarrow> if d \<noteq> 0 then now + d else now + default_delta
      | None \<Rightarrow> now + default_delta)"

text \<open>The dictionary \<open>to_encode\<close> of \<open>create_access_token\<close> and of \<open>create_refresh_token\<close>;
  \<open>now\<close> is the clock reading \<open>datetime.now(timezone.utc)\<close>.\<close>

definition access_to_encode ::
  "libs \<Rightarrow> settings \<Rightarrow> datetime \<Rightarrow> subject \<Rightarrow> timedelta option \<Rightarrow> pydict option \<Rightarrow> pydict" where
  "access_to_encode L cfg now subj expires_delta extra_claims =
     (let expire = token_expire now expires_delta (minutes (ACCESS_TOKEN_EXPIRE_MINUTES cfg));
          to_encode = [(''sub'', PStr (str_subject L subj)),
                       (''exp'', PDatetime expire),
                       (''type'', PStr ''access'')]
      in (case extra_claims of
            Some extra \<Rightarrow> if extra \<noteq> [] then dict_update to_encode extra else to_encode
          | None \<Rightarrow> to_encode))"

definition create_access_token ::
  "libs \<Rightarrow> settings \<Rightarrow> datetime \<Rightarrow> subject \<Rightarrow> timedelta option \<Rightarrow> pydict option \<Rightarrow> string" where
  "create_access_token L cfg now subj expires_delta extra_claims =
     jwt_encode L (access_to_encode L cfg now subj expires_delta extra_claims)
       (JWT_SECRET_KEY cfg) (JWT_ALGORITHM cfg)"

definition refresh_to_encode ::
  "libs \<Rightarrow> settings \<Rightarrow> datetime \<Rightarrow> subject \<Rightarrow> timedelta option \<Rightarrow> pydict" where
  "refresh_to_encode L cfg now subj expires_delta =
     (let expire = token_expire now expires_delta (days (REFRESH_TOKEN_EXPIRE_DAYS cfg))
      in [(''sub'', PStr (str_subject L subj)),
          (''exp'', PDatetime expire),
          (''type'', PStr ''refresh'')])"

definition create_refresh_token ::
  "libs \<Rightarrow> settings \<Rightarrow> datetime \<Rightarrow> subject \<Rightarrow> timedelta option \<Rightarrow> string" where
  "create_refresh_token L cfg now subj expires_delta =
     jwt_encode L (refresh_to_encode L cfg now subj expires_delta)
       (JWT_SECRET_KEY cfg) (JWT_ALGORITHM cfg)"

text \<open>\<open>decode_token\<close>: the payload, or \<open>None\<close> when the library raised \<open>JWTError\<close>.\<close>

definition decode_token :: "libs \<Rightarrow> settings \<Rightarrow> datetime \<Rightarrow> string \<Rightarrow> pydict option" where
  "decode_token L cfg now token =
     jwt_decode L token (JWT_SECRET_KEY cfg) [JWT_ALGORITHM cfg] now"

text \<open>
  What the JWT library does with one dictionary of claims: the encoder writes a
  \<open>datetime\<close> under \<open>exp\<close> as whole seconds, and the decoder, given the token back under
  the same key and algorithm, raises when \<open>exp\<close> is before the current second and returns
  the claims as they went over the wire otherwise.
\<close>

definition jose_round_trip :: "libs \<Rightarrow> string \<Rightarrow> string \<Rightarrow> pydict \<Rightarrow> datetime \<Rightarrow> bool" where
  "jose_round_trip L key alg claims now =
     (jwt_decode L (jwt_encode L claims key alg) key [alg] now =
        (case map_of claims ''exp'' of
           Some (PDatetime e) \<Rightarrow>
             if timegm e < timegm now then None
             else Some (AList.update ''exp'' (PInt (timegm e)) claims)
         | _ \<Rightarrow> Some claims))"

section \<open>Python built-ins used by the flows\<close>

text \<open>\<open>s.replace(old, '')\<close> for a non-empty \<open>old\<close>: the occurrences are removed from left
  to right without overlap; \<open>k\<close> counts the characters of a matched occurrence still to be
  skipped.\<close>

fun remove_from :: "string \<Rightarrow> nat \<Rightarrow> string \<Rightarrow> string" where
  "remove_from old k [] = []"
| "remove_from old k (c # cs) =
     (if 0 < k then remove_from old (k - 1) cs
      else if old \<noteq> [] \<and> take (length old) (c # cs) = old
           then remove_from old (length old - 1) cs
           else c # remove_from old 0 cs)"

definition str_remove :: "string \<Rightarrow> string \<Rightarrow> string" where
  "str_remove old s = remove_from old 0 s"

text \<open>\<open>s.strip(chars)\<close>.\<close>

definition str_strip :: "string \<Rightarrow> string \<Rightarrow> string" where
  "str_strip chars s =
     rev (dropWhile (\<lambda>c. c \<in> set chars) (rev (dropWhile (\<lambda>c. c \<in> set chars) s)))"

text \<open>\<open>uuid.UUID(hex)\<close> as \<open>uuid.py\<close> computes it from a string.\<close>

definition UUID :: "libs \<Rightarrow> string \<Rightarrow> error + uuid" where
  "UUID L hex =
     (let hex1 = str_remove ''uuid:'' (str_remove ''urn:'' hex);
          hex2 = str_remove ''-'' (str_strip ''{}'' hex1)
      in if length hex2 \<noteq> 32
         then Inl (ValueError ''badly formed hexadecimal UUID string'')
         else (case py_int16 L hex2 of
                 None \<Rightarrow> Inl (ValueError ''invalid literal for int() with base 16'')
               | Some n \<Rightarrow>
                   if 0 \<le> n \<and> n < 2 ^ 128 then Inr n
                   else Inl (ValueError ''int is out of range (need a 128-bit value)'')))"

text \<open>\<open>UUID(user_id)\<close> on a claim value: anything that is not a string has no \<open>replace\<close>
  method.\<close>

fun UUID_of_claim :: "libs \<Rightarrow> pyval \<Rightarrow> error + uuid" where
  "UUID_of_claim L (PStr s) = UUID L s"
| "UUID_of_claim L v = Inl (AttributeError ''replace'')"

section \<open>app/models: the tables\<close>

text \<open>
  One record per mapped class, with the columns the flows read or write.  A table is the
  list of its rows in insertion order.  The primary key \<open>id\<close> is kept where a flow reads
  it (\<open>User\<close> and the lookup tables).
\<close>

record user =
  u_id :: uuid
  u_email :: string
  u_password_hash :: "string option"
  u_email_verified :: bool
  u_is_active :: bool
  u_last_login_at :: "datetime option"

record auth_provider =
  ap_user_id :: uuid
  ap_provider :: string
  ap_provider_user_id :: string
  ap_access_token :: "string option"
  ap_refresh_token :: "string option"
  ap_token_expires_at :: "datetime option"
  ap_provider_data :: "(string \<times> string option) list option"

record user_session =
  s_user_id :: uuid
  s_session_token :: string
  s_device_info :: "string option"
  s_ip_address :: "string option"
  s_expires_at :: datetime
  s_created_at :: datetime

record archetype =
  a_id :: uuid
  a_name :: string
  a_description :: "string option"
  a_passive_bonuses :: "pydict option"

record life_mode =
  lm_id :: uuid
  lm_name :: string
  lm_description :: "string option"
  lm_modifiers :: "pydict option"

record life_area =
  la_id :: uuid
  la_name :: string
  la_emoji :: "string option"
  la_description :: "string option"
  la_is_active :: bool

record user_life_area =
  ula_user_id :: uuid
  ula_life_area_id :: uuid
  ula_priority :: int
  ula_selected_at :: datetime

record user_profile =
  p_user_id :: uuid
  p_player_name :: string
  p_archetype_id :: "uuid option"
  p_life_mode_id :: "uuid option"
  p_level :: int
  p_total_core_xp :: int
  p_avatar_url :: "string option"
  p_bio :: "string option"
  p_timezone :: string
  p_identity_locked_until :: "datetime option"
  p_onboarding_completed :: bool

record db =
  users :: "user list"
  auth_providers :: "auth_provider list"
  user_sessions :: "user_session list"
  user_profiles :: "user_profile list"
  archetypes :: "archetype list"
  life_modes :: "life_mode list"
  life_areas :: "life_area list"
  user_life_areas :: "user_life_area list"

text \<open>
  What one request takes from its environment: the salt \<open>bcrypt.gensalt()\<close> returns, the
  primary key a new \<open>User\<close> row receives, and the value of each reading of the clock
  (\<open>datetime.now(timezone.utc)\<close>, and the clock \<open>jwt.decode\<close> validates \<open>exp\<close> against).
\<close>

record env =
  gensalt :: string
  new_user_id :: uuid
  now_decode :: datetime
  now_last_login :: datetime
  now_access :: datetime
  now_refresh :: datetime
  now_expires :: datetime
  now_created :: datetime
  now_selected :: "nat \<Rightarrow> datetime"
  now_onboarding :: datetime

text \<open>\<open>Result.scalar_one_or_none()\<close>.\<close>

fun scalar_one_or_none :: "'a list \<Rightarrow> error + 'a option" where
  "scalar_one_or_none [] = Inr None"
| "scalar_one_or_none [x] = Inr (Some x)"
| "scalar_one_or_none (x # y # zs) = Inl MultipleResultsFound"

text \<open>A mapped object is its row: assigning to an attribute and flushing rewrites that
  row.\<close>

definition replace_row :: "'a \<Rightarrow> 'a \<Rightarrow> 'a list \<Rightarrow> 'a list" where
  "replace_row old new rows = map (\<lambda>r. if r = old then new else r) rows"

section \<open>app/repositories/user_repo.py\<close>

definition get_by_id :: "db \<Rightarrow> uuid \<Rightarrow> error + user option" where
  "get_by_id d user_id = scalar_one_or_none (filter (\<lambda>u. u_id u = user_id) (users d))"

definition get_by_email :: "libs \<Rightarrow> db \<Rightarrow> string \<Rightarrow> error + user option" where
  "get_by_email L d email =
     scalar_one_or_none (filter (\<lambda>u. u_email u = str_lower L email) (users d))"

text \<open>\<open>UserRepository.create\<close>; \<open>new_id\<close> is the primary key the row receives.\<close>

definition user_create ::
  "libs \<Rightarrow> db \<Rightarrow> uuid \<Rightarrow> string \<Rightarrow> string option \<Rightarrow> bool \<Rightarrow> user \<times> db" where
  "user_create L d new_id email password_hash email_verified =
     (let user = \<lparr>u_id = new_id, u_email = str_lower L email, u_password_hash = password_hash,
                  u_email_verified = email_verified, u_is_active = True,
                  u_last_login_at = None\<rparr>
      in (user, d\<lparr>users := users d @ [user]\<rparr>))"

definition update_last_login :: "db \<Rightarrow> user \<Rightarrow> datetime \<Rightarrow> user \<times> db" where
  "update_last_login d user now =
     (let user' = user\<lparr>u_last_login_at := Some now\<rparr>
      in (user', d\<lparr>users := replace_row user user' (users d)\<rparr>))"

definition get_auth_provider :: "db \<Rightarrow> string \<Rightarrow> string \<Rightarrow> error + auth_provider option" where
  "get_auth_provider d provider provider_user_id =
     scalar_one_or_none
       (filter (\<lambda>a. ap_provider a = provider \<and> ap_provider_user_id a = provider_user_id)
          (auth_providers d))"

definition create_auth_provider ::
  "db \<Rightarrow> uuid \<Rightarrow> string \<Rightarrow> string \<Rightarrow> string option \<Rightarrow> string option \<Rightarrow> datetime option
     \<Rightarrow> (string \<times> string option) list option \<Rightarrow> auth_provider \<times> db" where
  "create_auth_provider d user_id provider provider_user_id access_token refresh_token
       token_expires_at provider_data =
     (let ap = \<lparr>ap_user_id = user_id, ap_provider = provider,
                ap_provider_user_id = provider_user_id, ap_access_token = access_token,
                ap_refresh_token = refresh_token, ap_token_expires_at = token_expires_at,
                ap_provider_data = provider_data\<rparr>
      in (ap, d\<lparr>auth_providers := auth_providers d @ [ap]\<rparr>))"

text \<open>\<open>create_session\<close>: the column \<open>session_token\<close> is declared \<open>unique=True\<close>, so the
  flush of a row whose token is already stored raises \<open>IntegrityError\<close> and adds nothing.\<close>

definition create_session ::
  "db \<Rightarrow> datetime \<Rightarrow> uuid \<Rightarrow> string \<Rightarrow> datetime \<Rightarrow> string option \<Rightarrow> string option
     \<Rightarrow> error + user_session \<times> db" where
  "create_session d now user_id session_token expires_at device_info ip_address =
     (let session = \<lparr>s_user_id = user_id, s_session_token = session_token,
                     s_device_info = device_info, s_ip_address = ip_address,
                     s_expires_at = expires_at, s_created_at = now\<rparr>
      in if session_token \<in> set (map s_session_token (user_sessions d))
         then Inl (IntegrityError ''user_sessions.session_token'')
         else Inr (session, d\<lparr>user_sessions := user_sessions d @ [session]\<rparr>))"

definition get_session_by_token :: "db \<Rightarrow> string \<Rightarrow> error + user_session option" where
  "get_session_by_token d session_token =
     scalar_one_or_none (filter (\<lambda>s. s_session_token s = session_token) (user_sessions d))"

definition delete_session :: "db \<Rightarrow> user_session \<Rightarrow> db" where
  "delete_session d session = d\<lparr>user_sessions := remove1 session (user_sessions d)\<rparr>"

definition delete_all_user_sessions :: "db \<Rightarrow> uuid \<Rightarrow> db" where
  "delete_all_user_sessions d user_id =
     (let sessions = filter (\<lambda>s. s_user_id s = user_id) (user_sessions d)
      in d\<lparr>user_sessions := foldl (\<lambda>rows s. remove1 s rows) (user_sessions d) sessions\<rparr>)"

section \<open>app/core/oauth.py\<close>

text \<open>Every exception raised inside the \<open>try\<close> block, the \<open>GoogleOAuthError\<close> for a wrong
  issuer included, is caught and raised again as a \<open>GoogleOAuthError\<close>.\<close>

definition verify_google_token :: "libs \<Rightarrow> settings \<Rightarrow> string \<Rightarrow> error + google_user" where
  "verify_google_token L cfg token =
     (case verify_oauth2_token L token (GOOGLE_CLIENT_ID cfg) of
        Inl (ValueError m) \<Rightarrow> Inl (GoogleOAuthError (''Invalid Google token: '' @ m))
      | Inl e \<Rightarrow> Inl (GoogleOAuthError (''Google OAuth verification failed: '' @ str_error e))
      | Inr info \<Rightarrow>
          (case i_iss info of
             None \<Rightarrow>
               Inl (GoogleOAuthError
                      (''Google OAuth verification failed: '' @ [CHR 0x27] @ ''iss'' @ [CHR 0x27]))
           | Some iss \<Rightarrow>
               if iss \<notin> set [''accounts.google.com'', ''https://accounts.google.com'']
               then Inl (GoogleOAuthError
                           ''Google OAuth verification failed: Invalid token issuer'')
               else Inr \<lparr>g_email = i_email info, g_sub = i_sub info, g_name = i_name info,
                         g_picture = i_picture info, g_given_name = i_given_name info,
                         g_family_name = i_family_name info,
                         g_email_verified =
                           (case i_email_verified info of None \<Rightarrow> False | Some b \<Rightarrow> b),
                         g_locale = i_locale info\<rparr>))"

section \<open>app/services/auth_service.py\<close>

record token_response =
  tr_access_token :: string
  tr_refresh_token :: string
  tr_token_type :: string
  tr_is_new_user :: bool

definition TokenResponse :: "string \<Rightarrow> string \<Rightarrow> bool \<Rightarrow> token_response" where
  "TokenResponse access_token refresh_token is_new_user =
     \<lparr>tr_access_token = access_token, tr_refresh_token = refresh_token,
      tr_token_type = ''bearer'', tr_is_new_user = is_new_user\<rparr>"

text \<open>
  A flow returns its result, or the exception it raised, together with the store.  When
  it raises, the store is the one its writes had reached; whether those writes persist is
  the transaction handling of the caller (\<open>app/db/session.py\<close>, not among the sources).

  \<open>_create_tokens_and_session\<close>: the pair is the dictionary with the keys
  \<open>access_token\<close> and \<open>refresh_token\<close>.
\<close>

definition create_tokens_and_session ::
  "libs \<Rightarrow> settings \<Rightarrow> env \<Rightarrow> db \<Rightarrow> user \<Rightarrow> string option \<Rightarrow> string option
     \<Rightarrow> (error + string \<times> string) \<times> db" where
  "create_tokens_and_session L cfg E d user device_info ip_address =
     (let access_token = create_access_token L cfg (now_access E) (SubjUUID (u_id user)) None None;
          refresh_token = create_refresh_token L cfg (now_refresh E) (SubjUUID (u_id user)) None;
          expires_at = now_expires E + days (REFRESH_TOKEN_EXPIRE_DAYS cfg)
      in (case create_session d (now_created E) (u_id user) refresh_token expires_at
                 device_info ip_address of
            Inl e \<Rightarrow> (Inl e, d)
          | Inr (session, d') \<Rightarrow> (Inr (access_token, refresh_token), d')))"

text \<open>The last step of every flow that issues tokens: the \<open>TokenResponse\<close> is built from
  the dictionary \<open>_create_tokens_and_session\<close> returned.\<close>

definition token_response_of ::
  "bool \<Rightarrow> (error + string \<times> string) \<times> db \<Rightarrow> (error + token_response) \<times> db" where
  "token_response_of is_new_user r =
     (case r of
        (Inl e, d) \<Rightarrow> (Inl e, d)
      | (Inr tokens, d) \<Rightarrow> (Inr (TokenResponse (fst tokens) (snd tokens) is_new_user), d))"

definition register ::
  "libs \<Rightarrow> settings \<Rightarrow> env \<Rightarrow> db \<Rightarrow> string \<Rightarrow> string \<Rightarrow> string option \<Rightarrow> string option
     \<Rightarrow> (error + token_response) \<times> db" where
  "register L cfg E d email password device_info ip_address =
     (case get_by_email L d email of
        Inl e \<Rightarrow> (Inl e, d)
      | Inr (Some existing_user) \<Rightarrow>
          (Inl (UserAlreadyExistsError ''User with this email already exists''), d)
      | Inr None \<Rightarrow>
          (case hash_password L (gensalt E) password of
             Inl e \<Rightarrow> (Inl e, d)
           | Inr password_hash \<Rightarrow>
               (let (user, d1) = user_create L d (new_user_id E) email (Some password_hash)
                                   False
                in token_response_of True
                     (create_tokens_and_session L cfg E d1 user device_info ip_address))))"

definition login ::
  "libs \<Rightarrow> settings \<Rightarrow> env \<Rightarrow> db \<Rightarrow> string \<Rightarrow> string \<Rightarrow> string option \<Rightarrow> string option
     \<Rightarrow> (error + token_response) \<times> db" where
  "login L cfg E d email password device_info ip_address =
     (case get_by_email L d email of
        Inl e \<Rightarrow> (Inl e, d)
      | Inr None \<Rightarrow> (Inl (InvalidCredentialsError ''Invalid email or password''), d)
      | Inr (Some user) \<Rightarrow>
          (case u_password_hash user of
             None \<Rightarrow> (Inl (InvalidCredentialsError ''Invalid email or password''), d)
           | Some h \<Rightarrow>
               if h = [] then (Inl (InvalidCredentialsError ''Invalid email or password''), d)
               else (case verify_password L password h of
                       Inl e \<Rightarrow> (Inl e, d)
                     | Inr False \<Rightarrow>
                         (Inl (InvalidCredentialsError ''Invalid email or password''), d)
                     | Inr True \<Rightarrow>
                         if \<not> u_is_active user
                         then (Inl (InvalidCredentialsError ''Account is deactivated''), d)
                         else (let (user1, d1) = update_last_login d user (now_last_login E)
                               in token_response_of False
                                    (create_tokens_and_session L cfg E d1 user1
                                       device_info ip_address)))))"

definition refresh_tokens ::
  "libs \<Rightarrow> settings \<Rightarrow> env \<Rightarrow> db \<Rightarrow> string \<Rightarrow> string option \<Rightarrow> string option
     \<Rightarrow> (error + token_response) \<times> db" where
  "refresh_tokens L cfg E d refresh_token device_info ip_address =
     (case decode_token L cfg (now_decode E) refresh_token of
        None \<Rightarrow> (Inl (InvalidTokenError ''Invalid token''), d)
      | Some payload \<Rightarrow>
          if payload = [] then (Inl (InvalidTokenError ''Invalid token''), d)
          else if dict_get payload ''type'' \<noteq> PStr ''refresh''
          then (Inl (InvalidTokenError ''Invalid token type''), d)
          else (let user_id = dict_get payload ''sub''
                in if \<not> truthy user_id then (Inl (InvalidTokenError ''Invalid token''), d)
                   else (case UUID_of_claim L user_id of
                           Inl e \<Rightarrow> (Inl e, d)
                         | Inr uid \<Rightarrow>
                             (case get_by_id d uid of
                                Inl e \<Rightarrow> (Inl e, d)
                              | Inr None \<Rightarrow> (Inl (InvalidTokenError ''Invalid token''), d)
                              | Inr (Some user) \<Rightarrow>
                                  if \<not> u_is_active user
                                  then (Inl (InvalidTokenError ''Invalid token''), d)
                                  else token_response_of False
                                         (create_tokens_and_session L cfg E d user
                                            device_info ip_address)))))"

definition logout :: "db \<Rightarrow> string \<Rightarrow> (error + unit) \<times> db" where
  "logout d session_token =
     (case get_session_by_token d session_token of
        Inl e \<Rightarrow> (Inl e, d)
      | Inr None \<Rightarrow> (Inr (), d)
      | Inr (Some session) \<Rightarrow> (Inr (), delete_session d session))"

definition logout_all :: "db \<Rightarrow> uuid \<Rightarrow> (error + unit) \<times> db" where
  "logout_all d user_id = (Inr (), delete_all_user_sessions d user_id)"

definition get_current_user :: "libs \<Rightarrow> settings \<Rightarrow> env \<Rightarrow> db \<Rightarrow> string \<Rightarrow> error + user" where
  "get_current_user L cfg E d token =
     (case decode_token L cfg (now_decode E) token of
        None \<Rightarrow> Inl (InvalidTokenError ''Invalid token'')
      | Some payload \<Rightarrow>
          if payload = [] then Inl (InvalidTokenError ''Invalid token'')
          else if dict_get payload ''type'' \<noteq> PStr ''access''
          then Inl (InvalidTokenError ''Invalid token type'')
          else (let user_id = dict_get payload ''sub''
                in if \<not> truthy user_id then Inl (InvalidTokenError ''Invalid token'')
                   else (case UUID_of_claim L user_id of
                           Inl e \<Rightarrow> Inl e
                         | Inr uid \<Rightarrow>
                             (case get_by_id d uid of
                                Inl e \<Rightarrow> Inl e
                              | Inr None \<Rightarrow> Inl (UserNotFoundError ''User not found'')
                              | Inr (Some user) \<Rightarrow>
                                  if \<not> u_is_active user
                                  then Inl (InvalidTokenError ''Account is deactivated'')
                                  else Inr user))))"

definition google_provider_data :: "google_user \<Rightarrow> (string \<times> string option) list" where
  "google_provider_data g =
     [(''picture'', g_picture g), (''given_name'', g_given_name g),
      (''family_name'', g_family_name g), (''locale'', g_locale g)]"

definition google_login ::
  "libs \<Rightarrow> settings \<Rightarrow> env \<Rightarrow> db \<Rightarrow> string \<Rightarrow> string option \<Rightarrow> string option
     \<Rightarrow> (error + token_response) \<times> db" where
  "google_login L cfg E d id_token device_info ip_address =
     (case verify_google_token L cfg id_token of
        Inl e \<Rightarrow> (Inl e, d)
      | Inr g \<Rightarrow>
          (case (g_email g, g_sub g) of
             (Some email, Some google_user_id) \<Rightarrow>
               if email = [] \<or> google_user_id = []
               then (Inl (InvalidCredentialsError
                            ''Invalid Google token: missing email or user ID''), d)
               else
                 (case get_by_email L d email of
                    Inl e \<Rightarrow> (Inl e, d)
                  | Inr (Some user) \<Rightarrow>
                      (case get_auth_provider d ''google'' google_user_id of
                         Inl e \<Rightarrow> (Inl e, d)
                       | Inr found \<Rightarrow>
                           (let d1 = (case found of
                                        Some ap \<Rightarrow> d
                                      | None \<Rightarrow>
                                          snd (create_auth_provider d (u_id user) ''google''
                                                 google_user_id None None None
                                                 (Some (google_provider_data g))));
                                (user1, d2) = update_last_login d1 user (now_last_login E)
                            in token_response_of False
                                 (create_tokens_and_session L cfg E d2 user1
                                    device_info ip_address)))
                  | Inr None \<Rightarrow>
                      (let (user, d1) = user_create L d (new_user_id E) email None
                                          (g_email_verified g);
                           d2 = snd (create_auth_provider d1 (u_id user) ''google''
                                       google_user_id None None None
                                       (Some (google_provider_data g)));
                           (user1, d3) = update_last_login d2 user (now_last_login E)
                       in token_response_of True
                            (create_tokens_and_session L cfg E d3 user1
                               device_info ip_address)))
           | _ \<Rightarrow>
               (Inl (InvalidCredentialsError
                       ''Invalid Google token: missing email or user ID''), d)))"

section \<open>app/repositories/profile_repo.py\<close>

definition get_by_user_id :: "db \<Rightarrow> uuid \<Rightarrow> error + user_profile option" where
  "get_by_user_id d user_id =
     scalar_one_or_none (filter (\<lambda>p. p_user_id p = user_id) (user_profiles d))"

definition get_by_player_name :: "db \<Rightarrow> string \<Rightarrow> error + user_profile option" where
  "get_by_player_name d player_name =
     scalar_one_or_none (filter (\<lambda>p. p_player_name p = player_name) (user_profiles d))"

text \<open>\<open>ProfileRepository.create\<close> and \<open>ProfileRepository.update\<close>.\<close>

definition profile_create ::
  "db \<Rightarrow> uuid \<Rightarrow> string \<Rightarrow> uuid option \<Rightarrow> uuid option \<Rightarrow> string option \<Rightarrow> string option
     \<Rightarrow> string \<Rightarrow> user_profile \<times> db" where
  "profile_create d user_id player_name archetype_id life_mode_id avatar_url bio timezone_str =
     (let profile = \<lparr>p_user_id = user_id, p_player_name = player_name,
                     p_archetype_id = archetype_id, p_life_mode_id = life_mode_id,
                     p_level = 1, p_total_core_xp = 0, p_avatar_url = avatar_url, p_bio = bio,
                     p_timezone = timezone_str, p_identity_locked_until = None,
                     p_onboarding_completed = False\<rparr>
      in (profile, d\<lparr>user_profiles := user_profiles d @ [profile]\<rparr>))"

definition profile_update ::
  "db \<Rightarrow> user_profile \<Rightarrow> string option \<Rightarrow> string option \<Rightarrow> string option \<Rightarrow> string option
     \<Rightarrow> user_profile \<times> db" where
  "profile_update d profile player_name avatar_url bio timezone_str =
     (let p1 = (case player_name of Some n \<Rightarrow> profile\<lparr>p_player_name := n\<rparr> | None \<Rightarrow> profile);
          p2 = (case avatar_url of Some a \<Rightarrow> p1\<lparr>p_avatar_url := Some a\<rparr> | None \<Rightarrow> p1);
          p3 = (case bio of Some b \<Rightarrow> p2\<lparr>p_bio := Some b\<rparr> | None \<Rightarrow> p2);
          p4 = (case timezone_str of Some z \<Rightarrow> p3\<lparr>p_timezone := z\<rparr> | None \<Rightarrow> p3)
      in (p4, d\<lparr>user_profiles := replace_row profile p4 (user_profiles d)\<rparr>))"

text \<open>Assigning \<open>archetype_id\<close> and \<open>life_mode_id\<close> on the mapped profile, as
  \<open>complete_onboarding\<close> does after \<open>update\<close>.\<close>

definition set_identity :: "db \<Rightarrow> user_profile \<Rightarrow> uuid \<Rightarrow> uuid \<Rightarrow> user_profile \<times> db" where
  "set_identity d profile archetype_id life_mode_id =
     (let profile' = profile\<lparr>p_archetype_id := Some archetype_id,
                             p_life_mode_id := Some life_mode_id\<rparr>
      in (profile', d\<lparr>user_profiles := replace_row profile profile' (user_profiles d)\<rparr>))"

definition mark_onboarding_complete :: "db \<Rightarrow> user_profile \<Rightarrow> datetime \<Rightarrow> user_profile \<times> db" where
  "mark_onboarding_complete d profile now =
     (let profile' = profile\<lparr>p_onboarding_completed := True,
                             p_identity_locked_until := Some (now + days 30)\<rparr>
      in (profile', d\<lparr>user_profiles := replace_row profile profile' (user_profiles d)\<rparr>))"

definition get_archetype_by_id :: "db \<Rightarrow> uuid \<Rightarrow> error + archetype option" where
  "get_archetype_by_id d archetype_id =
     scalar_one_or_none (filter (\<lambda>a. a_id a = archetype_id) (archetypes d))"

definition get_life_mode_by_id :: "db \<Rightarrow> uuid \<Rightarrow> error + life_mode option" where
  "get_life_mode_by_id d life_mode_id =
     scalar_one_or_none (filter (\<lambda>m. lm_id m = life_mode_id) (life_modes d))"

definition get_life_area_by_id :: "db \<Rightarrow> uuid \<Rightarrow> error + life_area option" where
  "get_life_area_by_id d life_area_id =
     scalar_one_or_none (filter (\<lambda>a. la_id a = life_area_id) (life_areas d))"

definition get_user_life_areas :: "db \<Rightarrow> uuid \<Rightarrow> user_life_area list" where
  "get_user_life_areas d user_id =
     sort_key ula_priority (filter (\<lambda>a. ula_user_id a = user_id) (user_life_areas d))"

text \<open>\<open>set_user_life_areas\<close>: the existing selections are deleted one by one, then one row
  per id is added with priority 1, 2, ...; \<open>clock i\<close> is the clock reading of the
  iteration with index \<open>i\<close>.\<close>

fun new_life_areas :: "uuid \<Rightarrow> (nat \<Rightarrow> datetime) \<Rightarrow> nat \<Rightarrow> uuid list \<Rightarrow> user_life_area list" where
  "new_life_areas user_id clock i [] = []"
| "new_life_areas user_id clock i (life_area_id # rest) =
     \<lparr>ula_user_id = user_id, ula_life_area_id = life_area_id,
      ula_priority = int i + 1, ula_selected_at = clock i\<rparr>
     # new_life_areas user_id clock (Suc i) rest"

definition set_user_life_areas ::
  "db \<Rightarrow> (nat \<Rightarrow> datetime) \<Rightarrow> uuid \<Rightarrow> uuid list \<Rightarrow> user_life_area list \<times> db" where
  "set_user_life_areas d clock user_id life_area_ids =
     (let existing = get_user_life_areas d user_id;
          kept = foldl (\<lambda>rows ula. remove1 ula rows) (user_life_areas d) existing;
          created = new_life_areas user_id clock 0 life_area_ids
      in (created, d\<lparr>user_life_areas := kept @ created\<rparr>))"

section \<open>app/services/profile_service.py\<close>

record onboarding_request =
  d_player_name :: string
  d_archetype_id :: uuid
  d_life_mode_id :: uuid
  d_life_area_ids :: "uuid list"
  d_avatar_url :: "string option"
  d_bio :: "string option"
  d_timezone :: string

text \<open>\<open>ProfileResponse.model_validate(profile)\<close> reads the columns of the profile and its
  two relationship attributes \<open>archetype\<close> and \<open>life_mode\<close>, as they were last loaded.\<close>

record profile_response =
  pr_profile :: user_profile
  pr_archetype :: "archetype option"
  pr_life_mode :: "life_mode option"

record onboarding_response =
  or_profile :: profile_response
  or_message :: string

text \<open>Loading the relationship of a foreign key (\<open>selectinload\<close>, \<open>db.refresh\<close>).\<close>

definition load_archetype :: "db \<Rightarrow> uuid option \<Rightarrow> archetype option" where
  "load_archetype d archetype_id = find (\<lambda>a. Some (a_id a) = archetype_id) (archetypes d)"

definition load_life_mode :: "db \<Rightarrow> uuid option \<Rightarrow> life_mode option" where
  "load_life_mode d life_mode_id = find (\<lambda>m. Some (lm_id m) = life_mode_id) (life_modes d)"

definition model_validate ::
  "user_profile \<Rightarrow> archetype option \<Rightarrow> life_mode option \<Rightarrow> profile_response" where
  "model_validate profile archetype life_mode =
     \<lparr>pr_profile = profile, pr_archetype = archetype, pr_life_mode = life_mode\<rparr>"

text \<open>The loop that validates the life areas stops at the first unknown id.\<close>

fun validate_life_areas :: "libs \<Rightarrow> db \<Rightarrow> uuid list \<Rightarrow> error + unit" where
  "validate_life_areas L d [] = Inr ()"
| "validate_life_areas L d (life_area_id # rest) =
     (case get_life_area_by_id d life_area_id of
        Inl e \<Rightarrow> Inl e
      | Inr None \<Rightarrow> Inl (ValidationError (''Invalid life area ID: '' @ uuid_str L life_area_id))
      | Inr (Some life_area) \<Rightarrow> validate_life_areas L d rest)"

text \<open>
  The part of \<open>complete_onboarding\<close> after the validations: create or update the
  profile, set the life areas, mark the onboarding complete, reload.  The reload returns
  the mapped object the flow already holds, with the relationships it had loaded: for an
  existing profile those of the first \<open>get_by_user_id\<close>, loaded before the new ids were
  assigned; for a new profile those \<open>ProfileRepository.create\<close> refreshed.
\<close>

definition finish_onboarding ::
  "env \<Rightarrow> db \<Rightarrow> uuid \<Rightarrow> onboarding_request \<Rightarrow> user_profile option
     \<Rightarrow> (error + onboarding_response) \<times> db" where
  "finish_onboarding E d user_id data existing_profile =
     (let (profile, d1) =
            (case existing_profile of
               Some existing \<Rightarrow>
                 (let (p, d') = profile_update d existing (Some (d_player_name data))
                                  (d_avatar_url data) (d_bio data) (Some (d_timezone data))
                  in set_identity d' p (d_archetype_id data) (d_life_mode_id data))
             | None \<Rightarrow>
                 profile_create d user_id (d_player_name data) (Some (d_archetype_id data))
                   (Some (d_life_mode_id data)) (d_avatar_url data) (d_bio data)
                   (d_timezone data));
          archetype =
            (case existing_profile of
               Some existing \<Rightarrow> load_archetype d (p_archetype_id existing)
             | None \<Rightarrow> load_archetype d (Some (d_archetype_id data)));
          life_mode =
            (case existing_profile of
               Some existing \<Rightarrow> load_life_mode d (p_life_mode_id existing)
             | None \<Rightarrow> load_life_mode d (Some (d_life_mode_id data)));
          d2 = snd (set_user_life_areas d1 (now_selected E) user_id (d_life_area_ids data));
          (profile', d3) = mark_onboarding_complete d2 profile (now_onboarding E)
      in (case get_by_user_id d3 user_id of
            Inl e \<Rightarrow> (Inl e, d3)
          | Inr None \<Rightarrow> (Inl (AttributeError ''model_validate''), d3)
          | Inr (Some reloaded) \<Rightarrow>
              (Inr \<lparr>or_profile = model_validate reloaded archetype life_mode,
                    or_message = ''Onboarding completed successfully! Your identity is locked for 30 days.''\<rparr>,
               d3)))"

definition complete_onboarding ::
  "libs \<Rightarrow> env \<Rightarrow> db \<Rightarrow> uuid \<Rightarrow> onboarding_request \<Rightarrow> (error + onboarding_response) \<times> db" where
  "complete_onboarding L E d user_id data =
     (case get_by_user_id d user_id of
        Inl e \<Rightarrow> (Inl e, d)
      | Inr existing_profile \<Rightarrow>
          if (case existing_profile of Some p \<Rightarrow> p_onboarding_completed p | None \<Rightarrow> False)
          then (Inl (ValidationError ''Onboarding already completed''), d)
          else
            (case get_by_player_name d (d_player_name data) of
               Inl e \<Rightarrow> (Inl e, d)
             | Inr existing_name \<Rightarrow>
                 if (case existing_name of Some n \<Rightarrow> p_user_id n \<noteq> user_id | None \<Rightarrow> False)
                 then (Inl (PlayerNameTakenError ''This player name is already taken''), d)
                 else
                   (case get_archetype_by_id d (d_archetype_id data) of
                      Inl e \<Rightarrow> (Inl e, d)
                    | Inr None \<Rightarrow> (Inl (ValidationError ''Invalid archetype ID''), d)
                    | Inr (Some archetype) \<Rightarrow>
                        (case get_life_mode_by_id d (d_life_mode_id data) of
                           Inl e \<Rightarrow> (Inl e, d)
                         | Inr None \<Rightarrow> (Inl (ValidationError ''Invalid life mode ID''), d)
                         | Inr (Some life_mode) \<Rightarrow>
                             (case validate_life_areas L d (d_life_area_ids data) of
                                Inl e \<Rightarrow> (Inl e, d)
                              | Inr u \<Rightarrow>
                                  finish_onboarding E d user_id data existing_profile)))))"

section \<open>A small concrete instance\<close>

text \<open>
  A configuration, stand-ins for the libraries, an environment and a store on which the
  flows can be evaluated.  The stand-ins are not the libraries: the codec knows four
  tokens and, like the library, writes \<open>exp\<close> in whole seconds, so two refresh tokens of
  one subject that expire in the same second are the same string; the stand-in for
  bcrypt raises \<open>ValueError\<close> on a password of more than 72 bytes and on a salt that is
  not three non-empty \<open>$\<close>-separated fields, and otherwise appends the password to the
  first 22 characters of the salt; the stand-in for \<open>str.lower()\<close> lower-cases the ASCII
  letters.
\<close>

definition demo_cfg :: settings where
  "demo_cfg = \<lparr>JWT_SECRET_KEY = ''secret'', JWT_ALGORITHM = ''HS256'',
                ACCESS_TOKEN_EXPIRE_MINUTES = 30, REFRESH_TOKEN_EXPIRE_DAYS = 7,
                GOOGLE_CLIENT_ID = ''client''\<rparr>"

definition demo_uuid_str :: string where
  "demo_uuid_str = ''00000000-0000-0000-0000-000000000001''"

definition demo_exp_seconds :: "pydict \<Rightarrow> int" where
  "demo_exp_seconds claims =
     (case dict_get claims ''exp'' of PDatetime e \<Rightarrow> timegm e | _ \<Rightarrow> 0)"

definition demo_encode :: "pydict \<Rightarrow> string \<Rightarrow> string \<Rightarrow> string" where
  "demo_encode claims key alg =
     (if dict_get claims ''sub'' = PStr ''service-account'' then ''service.jwt''
      else if dict_get claims ''type'' = PStr ''access'' then ''access.jwt''
      else if demo_exp_seconds claims = 604800 then ''refresh.jwt''
      else ''refresh2.jwt'')"

definition demo_decode :: "string \<Rightarrow> string \<Rightarrow> string list \<Rightarrow> datetime \<Rightarrow> pydict option" where
  "demo_decode token key algs now =
     (if token = ''access.jwt''
      then Some [(''sub'', PStr demo_uuid_str), (''exp'', PInt 1800), (''type'', PStr ''access'')]
      else if token = ''refresh.jwt''
      then Some [(''sub'', PStr demo_uuid_str), (''exp'', PInt 604800),
                 (''type'', PStr ''refresh'')]
      else if token = ''refresh2.jwt''
      then Some [(''sub'', PStr demo_uuid_str), (''exp'', PInt 604803),
                 (''type'', PStr ''refresh'')]
      else if token = ''service.jwt''
      then Some [(''sub'', PStr ''service-account''), (''exp'', PInt 1800),
                 (''type'', PStr ''access'')]
      else None)"

definition demo_char_lower :: "char \<Rightarrow> char" where
  "demo_char_lower c =
     (case map_of (zip ''ABCDEFGHIJKLMNOPQRSTUVWXYZ'' ''abcdefghijklmnopqrstuvwxyz'') c of
        Some l \<Rightarrow> l
      | None \<Rightarrow> c)"

fun demo_split :: "char \<Rightarrow> string \<Rightarrow> string list" where
  "demo_split c [] = [[]]"
| "demo_split c (x # xs) =
     (if x = c then [] # demo_split c xs
      else (case demo_split c xs of
              y # ys \<Rightarrow> (x # y) # ys
            | [] \<Rightarrow> [[x]]))"

definition demo_hashpw :: "string \<Rightarrow> string \<Rightarrow> error + string" where
  "demo_hashpw password salt =
     (if 72 < length password
      then Inl (ValueError ''password cannot be longer than 72 bytes'')
      else (case filter (\<lambda>f. f \<noteq> []) (demo_split CHR ''$'' salt) of
              [version, cost, remainder] \<Rightarrow>
                Inr (''$'' @ version @ ''$'' @ cost @ ''$'' @ take 22 remainder @ password)
            | _ \<Rightarrow> Inl (ValueError ''Invalid salt'')))"

definition demo_checkpw :: "string \<Rightarrow> string \<Rightarrow> error + bool" where
  "demo_checkpw password hashed_password =
     (case demo_hashpw password hashed_password of
        Inl e \<Rightarrow> Inl e
      | Inr ret \<Rightarrow> Inr (ret = hashed_password))"


definition demo_idinfo :: "string \<Rightarrow> idinfo" where
  "demo_idinfo sub =
     \<lparr>i_iss = Some ''accounts.google.com'', i_email = Some ''A@x.com'', i_sub = Some sub,
      i_name = None, i_picture = None, i_given_name = None, i_family_name = None,
      i_email_verified = Some True, i_locale = None\<rparr>"

definition demo_libs :: libs where
  "demo_libs =
     \<lparr>jwt_encode = demo_encode,
      jwt_decode = demo_decode,
      py_int16 = (\<lambda>s. if s = ''00000000000000000000000000000001'' then Some 1 else None),
      uuid_str = (\<lambda>u. demo_uuid_str),
      str_lower = map demo_char_lower,
      utf8_encode = Inr,
      utf8_decode = Inr,
      bcrypt_hashpw = demo_hashpw,
      bcrypt_checkpw = demo_checkpw,
      verify_oauth2_token = (\<lambda>token client_id.
                               if token = ''google-1'' then Inr (demo_idinfo ''g-1'')
                               else if token = ''google-2'' then Inr (demo_idinfo ''g-2'')
                               else Inl (ValueError ''Wrong number of segments in token''))\<rparr>"

definition demo_env :: env where
  "demo_env =
     \<lparr>gensalt = ''$2b$12$saltsaltsaltsaltsaltsa'', new_user_id = 2,
      now_decode = 1000000, now_last_login = 2000000, now_access = 3000000,
      now_refresh = 3000000, now_expires = 3000000, now_created = 3000000,
      now_selected = (\<lambda>i. 4000000), now_onboarding = 5000000\<rparr>"

definition demo_user :: user where
  "demo_user =
     \<lparr>u_id = 1, u_email = ''a@x.com'',
      u_password_hash = Some ''$2b$12$saltsaltsaltsaltsaltsasecret!!'',
      u_email_verified = False, u_is_active = True, u_last_login_at = None\<rparr>"

definition demo_session :: user_session where
  "demo_session =
     \<lparr>s_user_id = 1, s_session_token = ''refresh.jwt'', s_device_info = None,
      s_ip_address = None, s_expires_at = 604800000000, s_created_at = 0\<rparr>"

definition demo_link :: auth_provider where
  "demo_link =
     \<lparr>ap_user_id = 1, ap_provider = ''google'', ap_provider_user_id = ''g-1'',
      ap_access_token = None, ap_refresh_token = None, ap_token_expires_at = None,
      ap_provider_data = None\<rparr>"

definition demo_db :: db where
  "demo_db =
     \<lparr>users = [demo_user], auth_providers = [demo_link], user_sessions = [demo_session],
      user_profiles = [],
      archetypes = [\<lparr>a_id = 10, a_name = ''Explorer'', a_description = None,
                     a_passive_bonuses = None\<rparr>],
      life_modes = [\<lparr>lm_id = 20, lm_name = ''Growth'', lm_description = None,
                     lm_modifiers = None\<rparr>],
      life_areas = [\<lparr>la_id = 30, la_name = ''Mind'', la_emoji = None, la_description = None,
                     la_is_active = True\<rparr>],
      user_life_areas = []\<rparr>"

definition demo_request :: onboarding_request where
  "demo_request =
     \<lparr>d_player_name = ''hero'', d_archetype_id = 10, d_life_mode_id = 20,
      d_life_area_ids = [30], d_avatar_url = None, d_bio = None, d_timezone = ''UTC''\<rparr>"

section \<open>Properties of the password and token utilities\<close>

lemma timegm_mono: "a \<le> b \<Longrightarrow> timegm a \<le> timegm b"
  unfolding timegm_def by (rule zdiv_mono1) simp_all

lemma access_to_encode_plain:
  "access_to_encode L cfg now subj None None =
     [(''sub'', PStr (str_subject L subj)),
      (''exp'', PDatetime (now + minutes (ACCESS_TOKEN_EXPIRE_MINUTES cfg))),
      (''type'', PStr ''access'')]"
  by (simp add: access_to_encode_def token_expire_def)

lemma refresh_to_encode_plain:
  "refresh_to_encode L cfg now subj None =
     [(''sub'', PStr (str_subject L subj)),
      (''exp'', PDatetime (now + days (REFRESH_TOKEN_EXPIRE_DAYS cfg))),
      (''type'', PStr ''refresh'')]"
  by (simp add: refresh_to_encode_def token_expire_def)

text \<open>
  C2.  Issuing and decoding round-trip: whenever the JWT library returns the claims it
  encoded (\<open>jose_round_trip\<close>, for the dictionary the issuing function builds and the
  instant of the decode), and the decode happens no later than the issuing instant plus
  the configured lifetime, decoding \<open>create_access_token(id)\<close> succeeds with subject
  \<open>str(id)\<close> and type \<open>access\<close>, and decoding \<open>create_refresh_token(id)\<close> succeeds with
  subject \<open>str(id)\<close> and type \<open>refresh\<close>.
\<close>

theorem token_round_trip:
  assumes acc: "jose_round_trip L (JWT_SECRET_KEY cfg) (JWT_ALGORITHM cfg)
                  (access_to_encode L cfg t_a (SubjUUID uid) None None) t_a'"
      and ref: "jose_round_trip L (JWT_SECRET_KEY cfg) (JWT_ALGORITHM cfg)
                  (refresh_to_encode L cfg t_r (SubjUUID uid) None) t_r'"
      and ta: "t_a' \<le> t_a + minutes (ACCESS_TOKEN_EXPIRE_MINUTES cfg)"
      and tr: "t_r' \<le> t_r + days (REFRESH_TOKEN_EXPIRE_DAYS cfg)"
  shows "(\<exists>p. decode_token L cfg t_a' (create_access_token L cfg t_a (SubjUUID uid) None None)
               = Some p
             \<and> dict_get p ''sub'' = PStr (uuid_str L uid)
             \<and> dict_get p ''type'' = PStr ''access'')
       \<and> (\<exists>p. decode_token L cfg t_r' (create_refresh_token L cfg t_r (SubjUUID uid) None)
               = Some p
             \<and> dict_get p ''sub'' = PStr (uuid_str L uid)
             \<and> dict_get p ''type'' = PStr ''refresh'')"
proof
  have "\<not> timegm (t_a + minutes (ACCESS_TOKEN_EXPIRE_MINUTES cfg)) < timegm t_a'"
    using timegm_mono [OF ta] by simp
  with acc
  show "\<exists>p. decode_token L cfg t_a' (create_access_token L cfg t_a (SubjUUID uid) None None)
              = Some p
            \<and> dict_get p ''sub'' = PStr (uuid_str L uid)
            \<and> dict_get p ''type'' = PStr ''access''"
    by (simp add: jose_round_trip_def access_to_encode_plain decode_token_def
        create_access_token_def dict_get_def)
next
  have "\<not> timegm (t_r + days (REFRESH_TOKEN_EXPIRE_DAYS cfg)) < timegm t_r'"
    using timegm_mono [OF tr] by simp
  with ref
  show "\<exists>p. decode_token L cfg t_r' (create_refresh_token L cfg t_r (SubjUUID uid) None)
              = Some p
            \<and> dict_get p ''sub'' = PStr (uuid_str L uid)
            \<and> dict_get p ''type'' = PStr ''refresh''"
    by (simp add: jose_round_trip_def refresh_to_encode_plain decode_token_def
        create_refresh_token_def dict_get_def)
qed

lemma demo_access_round_trip:
  "jose_round_trip demo_libs (JWT_SECRET_KEY demo_cfg) (JWT_ALGORITHM demo_cfg)
     (access_to_encode demo_libs demo_cfg 0 (SubjUUID 1) None None) 1000000"
  by (simp add: jose_round_trip_def access_to_encode_plain demo_libs_def demo_cfg_def
      demo_encode_def demo_decode_def demo_exp_seconds_def demo_uuid_str_def dict_get_def
      timegm_def minutes_def days_def)

lemma demo_refresh_round_trip:
  "jose_round_trip demo_libs (JWT_SECRET_KEY demo_cfg) (JWT_ALGORITHM demo_cfg)
     (refresh_to_encode demo_libs demo_cfg 0 (SubjUUID 1) None) 1000000"
  by (simp add: jose_round_trip_def refresh_to_encode_plain demo_libs_def demo_cfg_def
      demo_encode_def demo_decode_def demo_exp_seconds_def demo_uuid_str_def dict_get_def
      timegm_def minutes_def days_def)

text \<open>The round trip on the concrete instance: both tokens issued at instant 0 and
  decoded one second later.\<close>

theorem token_round_trip_witness:
  "(\<exists>p. decode_token demo_libs demo_cfg 1000000
           (create_access_token demo_libs demo_cfg 0 (SubjUUID 1) None None) = Some p
        \<and> dict_get p ''sub'' = PStr (uuid_str demo_libs 1)
        \<and> dict_get p ''type'' = PStr ''access'')
   \<and> (\<exists>p. decode_token demo_libs demo_cfg 1000000
           (create_refresh_token demo_libs demo_cfg 0 (SubjUUID 1) None) = Some p
        \<and> dict_get p ''sub'' = PStr (uuid_str demo_libs 1)
        \<and> dict_get p ''type'' = PStr ''refresh'')"
proof (rule token_round_trip [OF demo_access_round_trip demo_refresh_round_trip])
  show "(1000000::int) \<le> 0 + minutes (ACCESS_TOKEN_EXPIRE_MINUTES demo_cfg)"
    by (simp add: minutes_def demo_cfg_def)
  show "(1000000::int) \<le> 0 + days (REFRESH_TOKEN_EXPIRE_DAYS demo_cfg)"
    by (simp add: days_def demo_cfg_def)
qed

text \<open>
  C5 (as the code has it).  \<open>verify_password\<close> encodes its two arguments and returns what
  \<open>bcrypt.checkpw\<close> returns: the library's boolean whenever the library returns one.  It
  has no exception handler, so when \<open>bcrypt.checkpw\<close> raises, as it does on a
  hashed-password string that is not a bcrypt hash, \<open>verify_password\<close> raises the same
  exception and does not return \<open>False\<close>.
\<close>

theorem verify_password_outcome:
  assumes "utf8_encode L plain_password = Inr plain_bytes"
      and "utf8_encode L hashed_password = Inr hashed_bytes"
  shows "verify_password L plain_password hashed_password
           = bcrypt_checkpw L plain_bytes hashed_bytes
         \<and> ((\<exists>b. verify_password L plain_password hashed_password = Inr b)
              \<longleftrightarrow> (\<exists>b. bcrypt_checkpw L plain_bytes hashed_bytes = Inr b))"
  using assms by (simp add: verify_password_def)

text \<open>On the concrete instance, for the empty hashed-password string.\<close>

theorem verify_password_outcome_witness:
  "utf8_encode demo_libs ''secret!!'' = Inr ''secret!!''
   \<and> utf8_encode demo_libs [] = Inr []
   \<and> verify_password demo_libs ''secret!!'' [] = bcrypt_checkpw demo_libs ''secret!!'' []"
proof -
  have p: "utf8_encode demo_libs ''secret!!'' = Inr ''secret!!''"
    by (simp add: demo_libs_def)
  have h: "utf8_encode demo_libs [] = Inr []"
    by (simp add: demo_libs_def)
  from verify_password_outcome [OF p h] p h show ?thesis by blast
qed

text \<open>C5 as stated fails: on a hashed-password string that is not a bcrypt hash,
  \<open>verify_password\<close> raises instead of returning \<open>False\<close>.\<close>

theorem verify_password_raises:
  "verify_password demo_libs ''secret!!'' ''not-a-bcrypt-hash'' = Inl (ValueError ''Invalid salt'')"
  by (simp add: verify_password_def demo_libs_def demo_checkpw_def demo_hashpw_def)

section \<open>Properties of the authentication flows\<close>

lemma dict_get_PStr_nonempty: "dict_get p k = PStr s \<Longrightarrow> p \<noteq> []"
  by (auto simp: dict_get_def)

lemma demo_decode_refresh:
  "decode_token demo_libs demo_cfg (now_decode demo_env) ''refresh.jwt'' =
     Some [(''sub'', PStr demo_uuid_str), (''exp'', PInt 604800), (''type'', PStr ''refresh'')]"
  by (simp add: decode_token_def demo_libs_def demo_decode_def)

lemma demo_decode_access:
  "decode_token demo_libs demo_cfg (now_decode demo_env) ''access.jwt'' =
     Some [(''sub'', PStr demo_uuid_str), (''exp'', PInt 1800), (''type'', PStr ''access'')]"
  by (simp add: decode_token_def demo_libs_def demo_decode_def)

text \<open>
  C1.  Token types are not interchangeable.  A token that does not decode to a payload
  whose \<open>type\<close> claim is \<open>"refresh"\<close> makes \<open>refresh_tokens\<close> raise \<open>InvalidTokenError\<close>
  with the store untouched (no session is created); a token that does not decode to a
  payload whose \<open>type\<close> claim is \<open>"access"\<close> makes \<open>get_current_user\<close> raise
  \<open>InvalidTokenError\<close>, so no user is returned.  In particular, whenever the JWT library
  returns the claims it encoded, a token issued by \<open>create_refresh_token\<close> is rejected by
  \<open>get_current_user\<close> and one issued by \<open>create_access_token\<close> is rejected by
  \<open>refresh_tokens\<close>, whatever the subject and whether or not it has expired.
\<close>

theorem token_type_cross_use:
  "((\<forall>p. decode_token L cfg (now_decode E) token = Some p
          \<longrightarrow> dict_get p ''type'' \<noteq> PStr ''refresh'')
      \<longrightarrow> (\<exists>m. refresh_tokens L cfg E d token device_info ip_address
                 = (Inl (InvalidTokenError m), d)))
   \<and> ((\<forall>p. decode_token L cfg (now_decode E) token = Some p
          \<longrightarrow> dict_get p ''type'' \<noteq> PStr ''access'')
      \<longrightarrow> (\<exists>m. get_current_user L cfg E d token = Inl (InvalidTokenError m)))
   \<and> (jose_round_trip L (JWT_SECRET_KEY cfg) (JWT_ALGORITHM cfg)
         (refresh_to_encode L cfg t subj None) (now_decode E)
      \<longrightarrow> (\<exists>m. get_current_user L cfg E d (create_refresh_token L cfg t subj None)
                 = Inl (InvalidTokenError m)))
   \<and> (jose_round_trip L (JWT_SECRET_KEY cfg) (JWT_ALGORITHM cfg)
         (access_to_encode L cfg t subj None None) (now_decode E)
      \<longrightarrow> (\<exists>m. refresh_tokens L cfg E d (create_access_token L cfg t subj None None)
                   device_info ip_address = (Inl (InvalidTokenError m), d)))"
proof (intro conjI impI)
  assume "\<forall>p. decode_token L cfg (now_decode E) token = Some p
            \<longrightarrow> dict_get p ''type'' \<noteq> PStr ''refresh''"
  then show "\<exists>m. refresh_tokens L cfg E d token device_info ip_address
                  = (Inl (InvalidTokenError m), d)"
    by (cases "decode_token L cfg (now_decode E) token") (simp_all add: refresh_tokens_def)
next
  assume "\<forall>p. decode_token L cfg (now_decode E) token = Some p
            \<longrightarrow> dict_get p ''type'' \<noteq> PStr ''access''"
  then show "\<exists>m. get_current_user L cfg E d token = Inl (InvalidTokenError m)"
    by (cases "decode_token L cfg (now_decode E) token") (simp_all add: get_current_user_def)
next
  assume "jose_round_trip L (JWT_SECRET_KEY cfg) (JWT_ALGORITHM cfg)
            (refresh_to_encode L cfg t subj None) (now_decode E)"
  then have "decode_token L cfg (now_decode E) (create_refresh_token L cfg t subj None) = None
     \<or> (\<exists>p. decode_token L cfg (now_decode E) (create_refresh_token L cfg t subj None) = Some p
            \<and> dict_get p ''type'' = PStr ''refresh'')"
    by (simp add: jose_round_trip_def refresh_to_encode_plain decode_token_def
        create_refresh_token_def dict_get_def)
  then show "\<exists>m. get_current_user L cfg E d (create_refresh_token L cfg t subj None)
                 = Inl (InvalidTokenError m)"
    by (auto simp: get_current_user_def)
next
  assume "jose_round_trip L (JWT_SECRET_KEY cfg) (JWT_ALGORITHM cfg)
            (access_to_encode L cfg t subj None None) (now_decode E)"
  then have "decode_token L cfg (now_decode E) (create_access_token L cfg t subj None None) = None
     \<or> (\<exists>p. decode_token L cfg (now_decode E) (create_access_token L cfg t subj None None)
              = Some p
            \<and> dict_get p ''type'' = PStr ''access'')"
    by (simp add: jose_round_trip_def access_to_encode_plain decode_token_def
        create_access_token_def dict_get_def)
  then show "\<exists>m. refresh_tokens L cfg E d (create_access_token L cfg t subj None None)
                   device_info ip_address = (Inl (InvalidTokenError m), d)"
    by (auto simp: refresh_tokens_def)
qed

text \<open>On the concrete instance: the access token presented to \<open>refresh_tokens\<close>, the
  refresh token presented to \<open>get_current_user\<close>.\<close>

theorem token_type_cross_use_witness:
  "(\<exists>m. refresh_tokens demo_libs demo_cfg demo_env demo_db ''access.jwt'' None None
          = (Inl (InvalidTokenError m), demo_db))
   \<and> (\<exists>m. get_current_user demo_libs demo_cfg demo_env demo_db ''refresh.jwt''
          = Inl (InvalidTokenError m))
   \<and> (\<exists>m. get_current_user demo_libs demo_cfg demo_env demo_db
            (create_refresh_token demo_libs demo_cfg 0 (SubjUUID 1) None)
          = Inl (InvalidTokenError m))
   \<and> (\<exists>m. refresh_tokens demo_libs demo_cfg demo_env demo_db
            (create_access_token demo_libs demo_cfg 0 (SubjUUID 1) None None) None None
          = (Inl (InvalidTokenError m), demo_db))"
proof -
  have a: "\<forall>p. decode_token demo_libs demo_cfg (now_decode demo_env) ''access.jwt'' = Some p
             \<longrightarrow> dict_get p ''type'' \<noteq> PStr ''refresh''"
    by (simp add: demo_decode_access dict_get_def)
  have r: "\<forall>p. decode_token demo_libs demo_cfg (now_decode demo_env) ''refresh.jwt'' = Some p
             \<longrightarrow> dict_get p ''type'' \<noteq> PStr ''access''"
    by (simp add: demo_decode_refresh dict_get_def)
  have n: "now_decode demo_env = 1000000" by (simp add: demo_env_def)
  note rt = demo_refresh_round_trip [folded n] demo_access_round_trip [folded n]
  show ?thesis
    using token_type_cross_use
            [of demo_libs demo_cfg demo_env "''access.jwt''" demo_db None None 0 "SubjUUID 1"]
          token_type_cross_use
            [of demo_libs demo_cfg demo_env "''refresh.jwt''" demo_db None None 0 "SubjUUID 1"]
          a r rt
    by blast
qed

text \<open>
  C3, the case the claim misses.  A token that decodes (so it carries a valid signature)
  with type \<open>access\<close> and a subject that is not the text of a UUID, here
  \<open>"service-account"\<close> as \<open>create_access_token\<close> accepts for its \<open>str | UUID\<close> subject,
  makes \<open>UUID(user_id)\<close> raise \<open>ValueError\<close>: \<open>get_current_user\<close> raises neither
  \<open>InvalidTokenError\<close> nor \<open>UserNotFoundError\<close> and returns no user.
\<close>

theorem get_current_user_malformed_subject:
  assumes "decode_token L cfg (now_decode E) token = Some payload"
      and "dict_get payload ''type'' = PStr ''access''"
      and "dict_get payload ''sub'' = PStr ''service-account''"
  shows "get_current_user L cfg E d token
           = Inl (ValueError ''badly formed hexadecimal UUID string'')"
  using assms dict_get_PStr_nonempty [OF assms(2)]
  by (simp add: get_current_user_def UUID_def str_remove_def str_strip_def)

text \<open>On the concrete instance, with the token \<open>create_access_token\<close> issues for that
  subject.\<close>

theorem get_current_user_malformed_subject_witness:
  "create_access_token demo_libs demo_cfg 0 (SubjStr ''service-account'') None None
     = ''service.jwt''
   \<and> get_current_user demo_libs demo_cfg demo_env demo_db ''service.jwt''
       = Inl (ValueError ''badly formed hexadecimal UUID string'')"
proof
  show "create_access_token demo_libs demo_cfg 0 (SubjStr ''service-account'') None None
          = ''service.jwt''"
    by (simp add: create_access_token_def access_to_encode_plain demo_libs_def
        demo_encode_def dict_get_def)
  have "decode_token demo_libs demo_cfg (now_decode demo_env) ''service.jwt'' =
          Some [(''sub'', PStr ''service-account''), (''exp'', PInt 1800),
                (''type'', PStr ''access'')]"
    by (simp add: decode_token_def demo_libs_def demo_decode_def)
  then show "get_current_user demo_libs demo_cfg demo_env demo_db ''service.jwt''
               = Inl (ValueError ''badly formed hexadecimal UUID string'')"
    by (rule get_current_user_malformed_subject) (simp_all add: dict_get_def)
qed

text \<open>Apart from that case \<open>get_current_user\<close> is as specified: once the subject is a
  truthy claim that \<open>UUID\<close> accepts, the outcome is decided by the lookup alone.\<close>

lemma get_current_user_resolved:
  assumes "decode_token L cfg (now_decode E) token = Some p"
      and "dict_get p ''type'' = PStr ''access''"
      and "truthy (dict_get p ''sub'')"
      and "UUID_of_claim L (dict_get p ''sub'') = Inr uid"
  shows "get_current_user L cfg E d token =
           (case get_by_id d uid of
              Inl e \<Rightarrow> Inl e
            | Inr None \<Rightarrow> Inl (UserNotFoundError ''User not found'')
            | Inr (Some user) \<Rightarrow>
                if u_is_active user then Inr user
                else Inl (InvalidTokenError ''Account is deactivated''))"
  using assms dict_get_PStr_nonempty [OF assms(2)]
  by (simp add: get_current_user_def split: sum.splits option.splits)

lemma get_current_user_rejected:
  assumes "decode_token L cfg (now_decode E) token = None
           \<or> (\<exists>p. decode_token L cfg (now_decode E) token = Some p
                  \<and> (dict_get p ''type'' \<noteq> PStr ''access'' \<or> \<not> truthy (dict_get p ''sub'')))"
  shows "\<exists>m. get_current_user L cfg E d token = Inl (InvalidTokenError m)"
  using assms by (auto simp: get_current_user_def)

subsection \<open>Lookups under a unique index\<close>

lemma filter_key_distinct:
  "distinct (map f xs) \<Longrightarrow>
     filter (\<lambda>x. f x = k) xs = [] \<or> (\<exists>x. filter (\<lambda>x. f x = k) xs = [x])"
proof (induction xs)
  case Nil
  then show ?case by simp
next
  case (Cons a xs)
  show ?case
  proof (cases "f a = k")
    case True
    with Cons.prems have "\<forall>x\<in>set xs. f x \<noteq> k" by (force simp: image_iff)
    then have "filter (\<lambda>x. f x = k) xs = []" by (simp add: filter_empty_conv)
    with True show ?thesis by simp
  next
    case False
    with Cons show ?thesis by simp
  qed
qed

lemma remove1_key_distinct:
  "distinct (map f xs) \<Longrightarrow> filter (\<lambda>x. f x = k) xs = [x]
     \<Longrightarrow> remove1 x xs = filter (\<lambda>y. f y \<noteq> k) xs"
proof (induction xs)
  case Nil
  then show ?case by simp
next
  case (Cons a xs)
  show ?case
  proof (cases "f a = k")
    case True
    with Cons.prems have "\<forall>y\<in>set xs. f y \<noteq> k" by (force simp: image_iff)
    then have "filter (\<lambda>y. f y \<noteq> k) xs = xs" by (simp add: filter_id_conv)
    moreover from True Cons.prems have "a = x" by simp
    ultimately show ?thesis using True by simp
  next
    case False
    with Cons.prems have one: "filter (\<lambda>x. f x = k) xs = [x]" by simp
    then have "x \<in> set (filter (\<lambda>x. f x = k) xs)" by simp
    then have "x \<noteq> a" using False by auto
    moreover from Cons.IH Cons.prems one
    have "remove1 x xs = filter (\<lambda>y. f y \<noteq> k) xs" by simp
    ultimately show ?thesis using False by simp
  qed
qed

text \<open>
  C7.  \<open>logout\<close> never fails.  On a store whose session tokens are pairwise different
  (the unique index on \<open>session_token\<close>), \<open>logout\<close> returns normally for every token
  string; afterwards no session row carries that token and every other row, and every
  other table, is as before; when no row carried the token the store is unchanged; and a
  second \<open>logout\<close> with the same token returns normally and changes nothing more.
\<close>

theorem logout_never_fails:
  assumes "distinct (map s_session_token (user_sessions d))"
  shows "logout d token =
           (Inr (), d\<lparr>user_sessions :=
                        filter (\<lambda>s. s_session_token s \<noteq> token) (user_sessions d)\<rparr>)
         \<and> ((\<forall>s\<in>set (user_sessions d). s_session_token s \<noteq> token)
              \<longrightarrow> logout d token = (Inr (), d))
         \<and> logout (snd (logout d token)) token = (Inr (), snd (logout d token))"
proof -
  let ?rest = "filter (\<lambda>s. s_session_token s \<noteq> token) (user_sessions d)"
  have first: "logout d token = (Inr (), d\<lparr>user_sessions := ?rest\<rparr>)"
    using filter_key_distinct [OF assms, of token]
  proof
    assume none: "filter (\<lambda>s. s_session_token s = token) (user_sessions d) = []"
    then have "\<forall>s\<in>set (user_sessions d). s_session_token s \<noteq> token"
      by (simp add: filter_empty_conv)
    then have "?rest = user_sessions d" by (simp add: filter_id_conv)
    with none show ?thesis by (simp add: logout_def get_session_by_token_def)
  next
    assume "\<exists>x. filter (\<lambda>s. s_session_token s = token) (user_sessions d) = [x]"
    then obtain x where one: "filter (\<lambda>s. s_session_token s = token) (user_sessions d) = [x]" ..
    from remove1_key_distinct [OF assms one] one show ?thesis
      by (simp add: logout_def get_session_by_token_def delete_session_def)
  qed
  have absent: "filter (\<lambda>s. s_session_token s = token) ?rest = []"
    by (simp add: filter_empty_conv)
  have unchanged: "(\<forall>s\<in>set (user_sessions d). s_session_token s \<noteq> token)
                     \<longrightarrow> logout d token = (Inr (), d)"
  proof
    assume "\<forall>s\<in>set (user_sessions d). s_session_token s \<noteq> token"
    then have "?rest = user_sessions d" by (simp add: filter_id_conv)
    with first show "logout d token = (Inr (), d)" by simp
  qed
  have "logout (d\<lparr>user_sessions := ?rest\<rparr>) token = (Inr (), d\<lparr>user_sessions := ?rest\<rparr>)"
    using absent by (simp add: logout_def get_session_by_token_def)
  then have again: "logout (snd (logout d token)) token = (Inr (), snd (logout d token))"
    by (simp add: first)
  from first unchanged again show ?thesis by blast
qed

text \<open>On the concrete instance: the one session is deleted, an unknown token changes
  nothing, and the second \<open>logout\<close> succeeds.\<close>

theorem logout_never_fails_witness:
  "distinct (map s_session_token (user_sessions demo_db))
   \<and> logout demo_db ''refresh.jwt'' = (Inr (), demo_db\<lparr>user_sessions := []\<rparr>)
   \<and> logout demo_db ''unknown'' = (Inr (), demo_db)
   \<and> logout (snd (logout demo_db ''refresh.jwt'')) ''refresh.jwt''
       = (Inr (), demo_db\<lparr>user_sessions := []\<rparr>)"
proof -
  have dist: "distinct (map s_session_token (user_sessions demo_db))"
    by (simp add: demo_db_def)
  have sessions: "user_sessions demo_db = [demo_session]"
    by (simp add: demo_db_def)
  have tok: "s_session_token demo_session = ''refresh.jwt''"
    by (simp add: demo_session_def)
  note known = logout_never_fails [OF dist, of "''refresh.jwt''"]
  note unknown = logout_never_fails [OF dist, of "''unknown''"]
  from known have first: "logout demo_db ''refresh.jwt'' = (Inr (), demo_db\<lparr>user_sessions := []\<rparr>)"
    by (simp add: sessions tok)
  from known have "logout (snd (logout demo_db ''refresh.jwt'')) ''refresh.jwt''
                     = (Inr (), snd (logout demo_db ''refresh.jwt''))"
    by blast
  then have again: "logout (snd (logout demo_db ''refresh.jwt'')) ''refresh.jwt''
                      = (Inr (), demo_db\<lparr>user_sessions := []\<rparr>)"
    by (simp add: first)
  from unknown have other: "logout demo_db ''unknown'' = (Inr (), demo_db)"
    by (simp add: sessions tok)
  from dist first other again show ?thesis by blast
qed

subsection \<open>Issuing tokens and the unique index on session tokens\<close>

lemma create_tokens_and_session_eq:
  "create_tokens_and_session L cfg E d user device_info ip_address =
     (if create_refresh_token L cfg (now_refresh E) (SubjUUID (u_id user)) None
           \<in> s_session_token ` set (user_sessions d)
      then (Inl (IntegrityError ''user_sessions.session_token''), d)
      else (Inr (create_access_token L cfg (now_access E) (SubjUUID (u_id user)) None None,
                 create_refresh_token L cfg (now_refresh E) (SubjUUID (u_id user)) None),
            d\<lparr>user_sessions := user_sessions d @
                 [\<lparr>s_user_id = u_id user,
                   s_session_token =
                     create_refresh_token L cfg (now_refresh E) (SubjUUID (u_id user)) None,
                   s_device_info = device_info, s_ip_address = ip_address,
                   s_expires_at = now_expires E + days (REFRESH_TOKEN_EXPIRE_DAYS cfg),
                   s_created_at = now_created E\<rparr>]\<rparr>))"
  by (simp add: create_tokens_and_session_def create_session_def Let_def)

lemma issue_fresh:
  assumes "create_refresh_token L cfg (now_refresh E) (SubjUUID (u_id user)) None
             \<notin> s_session_token ` set (user_sessions d)"
  shows "token_response_of is_new
           (create_tokens_and_session L cfg E d user device_info ip_address) =
         (Inr (TokenResponse
                 (create_access_token L cfg (now_access E) (SubjUUID (u_id user)) None None)
                 (create_refresh_token L cfg (now_refresh E) (SubjUUID (u_id user)) None)
                 is_new),
          d\<lparr>user_sessions := user_sessions d @
               [\<lparr>s_user_id = u_id user,
                 s_session_token =
                   create_refresh_token L cfg (now_refresh E) (SubjUUID (u_id user)) None,
                 s_device_info = device_info, s_ip_address = ip_address,
                 s_expires_at = now_expires E + days (REFRESH_TOKEN_EXPIRE_DAYS cfg),
                 s_created_at = now_created E\<rparr>]\<rparr>)"
  using assms by (simp add: create_tokens_and_session_eq token_response_of_def)

lemma issue_collision:
  assumes "create_refresh_token L cfg (now_refresh E) (SubjUUID (u_id user)) None
             \<in> s_session_token ` set (user_sessions d)"
  shows "token_response_of is_new
           (create_tokens_and_session L cfg E d user device_info ip_address) =
         (Inl (IntegrityError ''user_sessions.session_token''), d)"
  using assms by (simp add: create_tokens_and_session_eq token_response_of_def)

text \<open>The flows keep the unique index: a token is stored only when it differs from the
  stored ones, and \<open>logout\<close> only removes rows.\<close>

lemma create_tokens_and_session_keeps_distinct:
  assumes "distinct (map s_session_token (user_sessions d))"
  shows "distinct (map s_session_token
           (user_sessions (snd (create_tokens_and_session L cfg E d user device_info ip_address))))"
  using assms by (simp add: create_tokens_and_session_eq)

lemma logout_keeps_distinct:
  assumes "distinct (map s_session_token (user_sessions d))"
  shows "distinct (map s_session_token (user_sessions (snd (logout d token))))"
proof -
  have rm: "distinct (map s_session_token xs) \<Longrightarrow> distinct (map s_session_token (remove1 x xs))"
    for x and xs :: "user_session list"
  proof (induction xs)
    case Nil
    then show ?case by simp
  next
    case (Cons a xs)
    have "set (remove1 x xs) \<subseteq> set xs" by (rule set_remove1_subset)
    with Cons show ?case by auto
  qed
  from rm [OF assms] assms show ?thesis
    by (auto simp: logout_def delete_session_def split: sum.splits option.splits)
qed

subsection \<open>Refresh\<close>

lemma refresh_tokens_valid:
  assumes "decode_token L cfg (now_decode E) token = Some p"
      and "dict_get p ''type'' = PStr ''refresh''"
      and "truthy (dict_get p ''sub'')"
      and "UUID_of_claim L (dict_get p ''sub'') = Inr uid"
      and "get_by_id d uid = Inr (Some user)"
      and "u_is_active user"
  shows "refresh_tokens L cfg E d token device_info ip_address =
           token_response_of False
             (create_tokens_and_session L cfg E d user device_info ip_address)"
  using assms dict_get_PStr_nonempty [OF assms(2)]
  by (simp add: refresh_tokens_def)

text \<open>What holds of \<open>refresh_tokens\<close> whatever the token: no session row is deleted or
  modified, and at most one is appended.\<close>

lemma refresh_tokens_frame:
  "\<exists>extra. snd (refresh_tokens L cfg E d token device_info ip_address)
              = d\<lparr>user_sessions := user_sessions d @ extra\<rparr> \<and> length extra \<le> 1"
proof -
  have issue: "\<exists>extra. snd (token_response_of False
                               (create_tokens_and_session L cfg E d u device_info ip_address))
                 = d\<lparr>user_sessions := user_sessions d @ extra\<rparr> \<and> length extra \<le> 1" for u
  proof (cases "create_refresh_token L cfg (now_refresh E) (SubjUUID (u_id u)) None
                  \<in> s_session_token ` set (user_sessions d)")
    case True
    then have "snd (token_response_of False
                      (create_tokens_and_session L cfg E d u device_info ip_address))
                 = d\<lparr>user_sessions := user_sessions d @ []\<rparr>
               \<and> length ([] :: user_session list) \<le> 1"
      by (simp add: issue_collision)
    then show ?thesis by blast
  next
    case False
    then show ?thesis
      unfolding issue_fresh [OF False] snd_conv
      by (metis le_refl length_Cons list.size(3) One_nat_def)
  qed
  have unchanged: "\<exists>extra. d = d\<lparr>user_sessions := user_sessions d @ extra\<rparr> \<and> length extra \<le> 1"
    by (rule exI [of _ "[]"]) simp
  show ?thesis
    using issue unchanged
    by (auto simp: refresh_tokens_def Let_def split: option.splits sum.splits)
qed

text \<open>For a valid refresh token whose successor is not stored yet, exactly one row is
  appended, keyed by the new refresh token.\<close>

lemma refresh_tokens_fresh:
  assumes "decode_token L cfg (now_decode E) token = Some p"
      and "dict_get p ''type'' = PStr ''refresh''"
      and "truthy (dict_get p ''sub'')"
      and "UUID_of_claim L (dict_get p ''sub'') = Inr uid"
      and "get_by_id d uid = Inr (Some user)"
      and "u_is_active user"
      and "create_refresh_token L cfg (now_refresh E) (SubjUUID (u_id user)) None
             \<notin> s_session_token ` set (user_sessions d)"
  shows "refresh_tokens L cfg E d token device_info ip_address =
           (Inr (TokenResponse
                   (create_access_token L cfg (now_access E) (SubjUUID (u_id user)) None None)
                   (create_refresh_token L cfg (now_refresh E) (SubjUUID (u_id user)) None)
                   False),
            d\<lparr>user_sessions := user_sessions d @
                 [\<lparr>s_user_id = u_id user,
                   s_session_token =
                     create_refresh_token L cfg (now_refresh E) (SubjUUID (u_id user)) None,
                   s_device_info = device_info, s_ip_address = ip_address,
                   s_expires_at = now_expires E + days (REFRESH_TOKEN_EXPIRE_DAYS cfg),
                   s_created_at = now_created E\<rparr>]\<rparr>)"
  using refresh_tokens_valid [OF assms(1-6)] issue_fresh [OF assms(7)] by simp

text \<open>
  C6, where the code departs from the claim.  The refresh token \<open>refresh_tokens\<close> mints
  carries only the subject, the expiry in whole seconds and the type.  When the token it
  mints for a valid presented token is already the key of a stored session (the presented
  token itself, when the refresh happens in the second in which that token was issued),
  the insert of the new session row violates the unique index on \<open>session_token\<close>:
  \<open>refresh_tokens\<close> raises \<open>IntegrityError\<close>, returns no tokens and adds no session row.
\<close>

theorem refresh_tokens_collision:
  assumes "decode_token L cfg (now_decode E) token = Some p"
      and "dict_get p ''type'' = PStr ''refresh''"
      and "truthy (dict_get p ''sub'')"
      and "UUID_of_claim L (dict_get p ''sub'') = Inr uid"
      and "get_by_id d uid = Inr (Some user)"
      and "u_is_active user"
      and "create_refresh_token L cfg (now_refresh E) (SubjUUID (u_id user)) None
             \<in> s_session_token ` set (user_sessions d)"
  shows "refresh_tokens L cfg E d token device_info ip_address
           = (Inl (IntegrityError ''user_sessions.session_token''), d)"
  using refresh_tokens_valid [OF assms(1-6)] issue_collision [OF assms(7)] by simp

lemma demo_UUID: "UUID_of_claim demo_libs (PStr demo_uuid_str) = Inr 1"
  by (simp add: UUID_def demo_libs_def demo_uuid_str_def str_remove_def str_strip_def)

lemma demo_get_by_id: "get_by_id demo_db 1 = Inr (Some demo_user)"
  by (simp add: get_by_id_def demo_db_def demo_user_def)

lemma demo_user_active: "u_is_active demo_user" "u_id demo_user = 1"
  by (simp_all add: demo_user_def)

lemma demo_same_second:
  "create_refresh_token demo_libs demo_cfg 400000 (SubjUUID 1) None = ''refresh.jwt''"
  by (simp add: create_refresh_token_def refresh_to_encode_plain demo_libs_def demo_encode_def
      demo_exp_seconds_def demo_cfg_def dict_get_def days_def timegm_def demo_uuid_str_def)

lemma demo_later_second:
  "create_refresh_token demo_libs demo_cfg 3000000 (SubjUUID 1) None = ''refresh2.jwt''"
  by (simp add: create_refresh_token_def refresh_to_encode_plain demo_libs_def demo_encode_def
      demo_exp_seconds_def demo_cfg_def dict_get_def days_def timegm_def demo_uuid_str_def)

text \<open>On the concrete instance: the stored refresh token was issued at instant 0 and is
  presented 0.4 s later.\<close>

theorem refresh_tokens_collision_witness:
  "create_refresh_token demo_libs demo_cfg 0 (SubjUUID 1) None = ''refresh.jwt''
   \<and> s_session_token demo_session = ''refresh.jwt''
   \<and> refresh_tokens demo_libs demo_cfg (demo_env\<lparr>now_refresh := 400000\<rparr>) demo_db
        ''refresh.jwt'' None None
       = (Inl (IntegrityError ''user_sessions.session_token''), demo_db)"
proof -
  let ?E = "demo_env\<lparr>now_refresh := 400000\<rparr>"
  let ?p = "[(''sub'', PStr demo_uuid_str), (''exp'', PInt 604800), (''type'', PStr ''refresh'')]"
  have dec: "decode_token demo_libs demo_cfg (now_decode ?E) ''refresh.jwt'' = Some ?p"
    using demo_decode_refresh by simp
  have ty: "dict_get ?p ''type'' = PStr ''refresh''" by (simp add: dict_get_def)
  have tr: "truthy (dict_get ?p ''sub'')" by (simp add: dict_get_def demo_uuid_str_def)
  have uu: "UUID_of_claim demo_libs (dict_get ?p ''sub'') = Inr 1"
    using demo_UUID by (simp add: dict_get_def)
  have stored: "create_refresh_token demo_libs demo_cfg (now_refresh ?E)
                  (SubjUUID (u_id demo_user)) None
                \<in> s_session_token ` set (user_sessions demo_db)"
    by (simp add: demo_user_active demo_same_second demo_db_def demo_session_def)
  have issued: "create_refresh_token demo_libs demo_cfg 0 (SubjUUID 1) None = ''refresh.jwt''"
    by (simp add: create_refresh_token_def refresh_to_encode_plain demo_libs_def
        demo_encode_def demo_exp_seconds_def demo_cfg_def dict_get_def days_def timegm_def
        demo_uuid_str_def)
  from refresh_tokens_collision
         [OF dec ty tr uu demo_get_by_id demo_user_active(1) stored, of None None]
       issued
  show ?thesis by (simp add: demo_session_def)
qed

subsection \<open>Registration\<close>

lemma get_by_email_found:
  assumes "distinct (map u_email (users d))"
      and "u \<in> set (users d)" and "u_email u = str_lower L email"
  shows "get_by_email L d email = Inr (Some u)"
proof -
  define F where "F = filter (\<lambda>x. u_email x = str_lower L email) (users d)"
  have mem: "u \<in> set F" using assms(2,3) by (simp add: F_def)
  from filter_key_distinct [OF assms(1), of "str_lower L email"]
  have "F = [] \<or> (\<exists>x. F = [x])" by (simp add: F_def)
  with mem have "F = [u]" by auto
  then show ?thesis by (simp add: get_by_email_def F_def)
qed

lemma get_by_email_absent:
  assumes "\<forall>u\<in>set (users d). u_email u \<noteq> str_lower L email"
  shows "get_by_email L d email = Inr None"
proof -
  from assms have "filter (\<lambda>x. u_email x = str_lower L email) (users d) = []"
    by (simp add: filter_empty_conv)
  then show ?thesis by (simp add: get_by_email_def)
qed

lemma register_existing:
  assumes uniq: "distinct (map u_email (users d))"
      and norm: "\<forall>u\<in>set (users d). u_email u = str_lower L (u_email u)"
      and ex: "\<exists>u\<in>set (users d). str_lower L (u_email u) = str_lower L email"
  shows "register L cfg E d email password device_info ip_address
           = (Inl (UserAlreadyExistsError ''User with this email already exists''), d)"
proof -
  from ex obtain u where u: "u \<in> set (users d)" "str_lower L (u_email u) = str_lower L email"
    by blast
  with norm have "u_email u = str_lower L email" by simp
  from get_by_email_found [OF uniq u(1) this] show ?thesis by (simp add: register_def)
qed

lemma register_absent:
  assumes norm: "\<forall>u\<in>set (users d). u_email u = str_lower L (u_email u)"
      and none: "\<forall>u\<in>set (users d). str_lower L (u_email u) \<noteq> str_lower L email"
  shows "register L cfg E d email password device_info ip_address =
           (case hash_password L (gensalt E) password of
              Inl e \<Rightarrow> (Inl e, d)
            | Inr password_hash \<Rightarrow>
                token_response_of True
                  (create_tokens_and_session L cfg E
                     (d\<lparr>users := users d @
                          [\<lparr>u_id = new_user_id E, u_email = str_lower L email,
                            u_password_hash = Some password_hash, u_email_verified = False,
                            u_is_active = True, u_last_login_at = None\<rparr>]\<rparr>)
                     \<lparr>u_id = new_user_id E, u_email = str_lower L email,
                      u_password_hash = Some password_hash, u_email_verified = False,
                      u_is_active = True, u_last_login_at = None\<rparr>
                     device_info ip_address))"
proof -
  from norm none have "\<forall>u\<in>set (users d). u_email u \<noteq> str_lower L email" by metis
  then have "get_by_email L d email = Inr None" by (rule get_by_email_absent)
  then show ?thesis
    by (simp add: register_def user_create_def Let_def split: sum.splits)
qed


text \<open>\<open>register\<close> keeps the two facts about the users table that are assumed above, given
  that lower-casing a lower-cased string changes nothing.\<close>

lemma register_keeps_users_normalised:
  assumes "distinct (map u_email (users d))"
      and "\<forall>u\<in>set (users d). u_email u = str_lower L (u_email u)"
      and idem: "\<forall>s. str_lower L (str_lower L s) = str_lower L s"
  shows "distinct (map u_email (users (snd (register L cfg E d email password device_info ip_address))))
       \<and> (\<forall>u\<in>set (users (snd (register L cfg E d email password device_info ip_address))).
             u_email u = str_lower L (u_email u))"
proof (cases "\<exists>u\<in>set (users d). str_lower L (u_email u) = str_lower L email")
  case True
  with assms(1,2)
  have "register L cfg E d email password device_info ip_address
          = (Inl (UserAlreadyExistsError ''User with this email already exists''), d)"
    by (rule register_existing)
  with assms show ?thesis by simp
next
  case False
  then have none: "\<forall>u\<in>set (users d). str_lower L (u_email u) \<noteq> str_lower L email" by simp
  with assms(2) have absent: "\<forall>u\<in>set (users d). u_email u \<noteq> str_lower L email" by metis
  note run = register_absent [OF assms(2) none, of cfg E password device_info ip_address]
  show ?thesis
  proof (cases "hash_password L (gensalt E) password")
    case (Inl e)
    with run assms show ?thesis by simp
  next
    case (Inr h)
    with run assms(1,2) absent idem show ?thesis
      by (auto simp: create_tokens_and_session_eq token_response_of_def)
  qed
qed

lemma demo_lower: "str_lower demo_libs ''A@x.com'' = ''a@x.com''"
                  "str_lower demo_libs ''a@x.com'' = ''a@x.com''"
                  "str_lower demo_libs ''new@x.com'' = ''new@x.com''"
  by (simp_all add: demo_libs_def demo_char_lower_def)




subsection \<open>Google login\<close>

lemma filter_replace_row:
  assumes "P old = P new"
  shows "filter P (replace_row old new rows) = replace_row old new (filter P rows)"
  using assms by (induction rows) (auto simp: replace_row_def)

lemma update_last_login_eq:
  "update_last_login d user now =
     (user\<lparr>u_last_login_at := Some now\<rparr>,
      d\<lparr>users := replace_row user (user\<lparr>u_last_login_at := Some now\<rparr>) (users d)\<rparr>)"
  by (simp add: update_last_login_def Let_def)

lemma get_by_id_after_login:
  assumes "get_by_id d (u_id user) = Inr (Some user)"
  shows "get_by_id (d\<lparr>users := replace_row user (user\<lparr>u_last_login_at := Some now\<rparr>) (users d)\<rparr>)
           (u_id user) = Inr (Some (user\<lparr>u_last_login_at := Some now\<rparr>))"
proof -
  from assms have "filter (\<lambda>u. u_id u = u_id user) (users d) = [user]"
    unfolding get_by_id_def
    by (cases "filter (\<lambda>u. u_id u = u_id user) (users d)" rule: scalar_one_or_none.cases) simp_all
  moreover have "filter (\<lambda>u. u_id u = u_id user)
                   (replace_row user (user\<lparr>u_last_login_at := Some now\<rparr>) (users d))
                 = replace_row user (user\<lparr>u_last_login_at := Some now\<rparr>)
                     (filter (\<lambda>u. u_id u = u_id user) (users d))"
    by (rule filter_replace_row) simp
  ultimately show ?thesis
    by (simp add: get_by_id_def replace_row_def)
qed

lemma google_login_existing_eq:
  assumes "verify_google_token L cfg id_token = Inr g"
      and "g_email g = Some email" and "email \<noteq> []"
      and "g_sub g = Some sub" and "sub \<noteq> []"
      and "get_by_email L d email = Inr (Some user)"
      and "get_auth_provider d ''google'' sub = Inr found"
  shows "google_login L cfg E d id_token device_info ip_address =
           token_response_of False
             (create_tokens_and_session L cfg E
                (d\<lparr>auth_providers :=
                     (case found of
                        Some ap \<Rightarrow> auth_providers d
                      | None \<Rightarrow> auth_providers d @
                          [\<lparr>ap_user_id = u_id user, ap_provider = ''google'',
                            ap_provider_user_id = sub, ap_access_token = None,
                            ap_refresh_token = None, ap_token_expires_at = None,
                            ap_provider_data = Some (google_provider_data g)\<rparr>]),
                   users := replace_row user (user\<lparr>u_last_login_at := Some (now_last_login E)\<rparr>)
                              (users d)\<rparr>)
                (user\<lparr>u_last_login_at := Some (now_last_login E)\<rparr>)
                device_info ip_address)"
  using assms
  by (cases found)
     (simp_all add: google_login_def update_last_login_eq create_auth_provider_def Let_def)

lemma google_login_existing:
  assumes "verify_google_token L cfg id_token = Inr g"
      and "g_email g = Some email" and "email \<noteq> []"
      and "g_sub g = Some sub" and "sub \<noteq> []"
      and "get_by_email L d email = Inr (Some user)"
      and "get_auth_provider d ''google'' sub = Inr found"
      and "create_refresh_token L cfg (now_refresh E) (SubjUUID (u_id user)) None
             \<notin> s_session_token ` set (user_sessions d)"
  shows "google_login L cfg E d id_token device_info ip_address =
           (Inr (TokenResponse
                   (create_access_token L cfg (now_access E) (SubjUUID (u_id user)) None None)
                   (create_refresh_token L cfg (now_refresh E) (SubjUUID (u_id user)) None)
                   False),
            d\<lparr>auth_providers :=
                 (case found of
                    Some ap \<Rightarrow> auth_providers d
                  | None \<Rightarrow> auth_providers d @
                      [\<lparr>ap_user_id = u_id user, ap_provider = ''google'',
                        ap_provider_user_id = sub, ap_access_token = None,
                        ap_refresh_token = None, ap_token_expires_at = None,
                        ap_provider_data = Some (google_provider_data g)\<rparr>]),
               users := replace_row user (user\<lparr>u_last_login_at := Some (now_last_login E)\<rparr>)
                          (users d),
               user_sessions := user_sessions d @
                 [\<lparr>s_user_id = u_id user,
                   s_session_token =
                     create_refresh_token L cfg (now_refresh E) (SubjUUID (u_id user)) None,
                   s_device_info = device_info, s_ip_address = ip_address,
                   s_expires_at = now_expires E + days (REFRESH_TOKEN_EXPIRE_DAYS cfg),
                   s_created_at = now_created E\<rparr>]\<rparr>)"
  using assms(8)
  by (simp add: google_login_existing_eq [OF assms(1-7)] create_tokens_and_session_eq
      token_response_of_def)

lemma login_inactive:
  assumes "get_by_email L d email = Inr (Some user)" and "\<not> u_is_active user"
  shows "\<exists>e. login L cfg E d email password device_info ip_address = (Inl e, d)"
  using assms
  by (auto simp: login_def split: option.splits sum.splits bool.splits)

lemma refresh_tokens_inactive:
  assumes "get_by_id d uid = Inr (Some user)" and "\<not> u_is_active user"
      and "decode_token L cfg (now_decode E) token = Some p"
      and "UUID_of_claim L (dict_get p ''sub'') = Inr uid"
  shows "\<exists>m. refresh_tokens L cfg E d token device_info ip_address = (Inl (InvalidTokenError m), d)"
  using assms by (auto simp: refresh_tokens_def Let_def)

lemma get_current_user_inactive:
  assumes "get_by_id d uid = Inr (Some user)" and "\<not> u_is_active user"
      and "decode_token L cfg (now_decode E) token = Some p"
      and "UUID_of_claim L (dict_get p ''sub'') = Inr uid"
  shows "\<exists>m. get_current_user L cfg E d token = Inl (InvalidTokenError m)"
  using assms by (auto simp: get_current_user_def Let_def)

text \<open>\<open>google_login\<close> has no active-account check.  For an account whose \<open>is_active\<close>
  flag is false and a verified Google id-token carrying that account's email, as long as
  the refresh token minted is not a stored session token, \<open>google_login\<close> returns an
  access and refresh token pair for the account, stores the session and sets
  \<open>last_login_at\<close>; on the same store \<open>login\<close> with that email fails for every password,
  and \<open>refresh_tokens\<close> and \<open>get_current_user\<close> raise \<open>InvalidTokenError\<close> for every token
  whose subject resolves to the account.\<close>

lemma google_login_inactive_account:
  assumes inactive: "\<not> u_is_active user"
      and by_email: "get_by_email L d email = Inr (Some user)"
      and by_id: "get_by_id d (u_id user) = Inr (Some user)"
      and verified: "verify_google_token L cfg id_token = Inr g"
      and claims: "g_email g = Some email" "email \<noteq> []" "g_sub g = Some sub" "sub \<noteq> []"
      and link: "get_auth_provider d ''google'' sub = Inr found"
      and unstored: "create_refresh_token L cfg (now_refresh E) (SubjUUID (u_id user)) None
                       \<notin> s_session_token ` set (user_sessions d)"
  shows "(\<exists>resp d'. google_login L cfg E d id_token device_info ip_address = (Inr resp, d')
            \<and> tr_access_token resp
                = create_access_token L cfg (now_access E) (SubjUUID (u_id user)) None None
            \<and> tr_refresh_token resp
                = create_refresh_token L cfg (now_refresh E) (SubjUUID (u_id user)) None
            \<and> get_by_id d' (u_id user)
                = Inr (Some (user\<lparr>u_last_login_at := Some (now_last_login E)\<rparr>))
            \<and> (\<exists>s\<in>set (user_sessions d'). s_session_token s = tr_refresh_token resp
                                              \<and> s_user_id s = u_id user))
       \<and> (\<forall>password. \<exists>e. login L cfg E d email password device_info ip_address = (Inl e, d))
       \<and> (\<forall>token p. decode_token L cfg (now_decode E) token = Some p
                     \<and> UUID_of_claim L (dict_get p ''sub'') = Inr (u_id user)
             \<longrightarrow> (\<exists>m. refresh_tokens L cfg E d token device_info ip_address
                         = (Inl (InvalidTokenError m), d)))
       \<and> (\<forall>token p. decode_token L cfg (now_decode E) token = Some p
                     \<and> UUID_of_claim L (dict_get p ''sub'') = Inr (u_id user)
             \<longrightarrow> (\<exists>m. get_current_user L cfg E d token = Inl (InvalidTokenError m)))"
proof (intro conjI allI impI)
  note run = google_login_existing [OF verified claims by_email link unstored,
                                    of device_info ip_address]
  have "get_by_id (snd (google_login L cfg E d id_token device_info ip_address)) (u_id user)
          = Inr (Some (user\<lparr>u_last_login_at := Some (now_last_login E)\<rparr>))"
    using get_by_id_after_login [OF by_id, of "now_last_login E"]
    by (simp add: run get_by_id_def)
  then show "\<exists>resp d'. google_login L cfg E d id_token device_info ip_address = (Inr resp, d')
            \<and> tr_access_token resp
                = create_access_token L cfg (now_access E) (SubjUUID (u_id user)) None None
            \<and> tr_refresh_token resp
                = create_refresh_token L cfg (now_refresh E) (SubjUUID (u_id user)) None
            \<and> get_by_id d' (u_id user)
                = Inr (Some (user\<lparr>u_last_login_at := Some (now_last_login E)\<rparr>))
            \<and> (\<exists>s\<in>set (user_sessions d'). s_session_token s = tr_refresh_token resp
                                              \<and> s_user_id s = u_id user)"
    by (simp add: run TokenResponse_def)
next
  fix password
  from by_email inactive
  show "\<exists>e. login L cfg E d email password device_info ip_address = (Inl e, d)"
    by (rule login_inactive)
next
  fix token p
  assume "decode_token L cfg (now_decode E) token = Some p
            \<and> UUID_of_claim L (dict_get p ''sub'') = Inr (u_id user)"
  with by_id inactive
  show "\<exists>m. refresh_tokens L cfg E d token device_info ip_address = (Inl (InvalidTokenError m), d)"
    by (blast intro: refresh_tokens_inactive)
next
  fix token p
  assume "decode_token L cfg (now_decode E) token = Some p
            \<and> UUID_of_claim L (dict_get p ''sub'') = Inr (u_id user)"
  with by_id inactive
  show "\<exists>m. get_current_user L cfg E d token = Inl (InvalidTokenError m)"
    by (blast intro: get_current_user_inactive)
qed

text \<open>
  C10, as the code has it.  \<open>google_login\<close> has no active-account check, but it does not
  return a token pair for every inactive account and verified id-token.  The refresh
  token it mints is determined by the account and the second of issue, and the column
  \<open>session_token\<close> is unique: when that token is already a stored session token (a
  second Google login of the account within one second), \<open>google_login\<close> raises
  \<open>IntegrityError\<close>, returns no pair and stores no session.
\<close>

theorem google_login_collision:
  assumes inactive: "\<not> u_is_active user"
      and verified: "verify_google_token L cfg id_token = Inr g"
      and claims: "g_email g = Some email" "email \<noteq> []" "g_sub g = Some sub" "sub \<noteq> []"
      and by_email: "get_by_email L d email = Inr (Some user)"
      and link: "get_auth_provider d ''google'' sub = Inr found"
      and stored: "create_refresh_token L cfg (now_refresh E) (SubjUUID (u_id user)) None
                     \<in> s_session_token ` set (user_sessions d)"
  shows "fst (google_login L cfg E d id_token device_info ip_address)
           = Inl (IntegrityError ''user_sessions.session_token'')
         \<and> user_sessions (snd (google_login L cfg E d id_token device_info ip_address))
             = user_sessions d"
  using stored
  by (simp add: google_login_existing_eq [OF verified claims by_email link]
      create_tokens_and_session_eq token_response_of_def)

lemma demo_verify_google:
  "verify_google_token demo_libs demo_cfg ''google-1'' = Inr
     \<lparr>g_email = Some ''A@x.com'', g_sub = Some ''g-1'', g_name = None, g_picture = None,
      g_given_name = None, g_family_name = None, g_email_verified = True, g_locale = None\<rparr>"
  "verify_google_token demo_libs demo_cfg ''google-2'' = Inr
     \<lparr>g_email = Some ''A@x.com'', g_sub = Some ''g-2'', g_name = None, g_picture = None,
      g_given_name = None, g_family_name = None, g_email_verified = True, g_locale = None\<rparr>"
  by (simp_all add: verify_google_token_def demo_libs_def demo_idinfo_def)

text \<open>On the concrete instance with the one account deactivated: the stored session
  token was issued in the second in which the account logs in with Google again.\<close>

theorem google_login_collision_witness:
  "\<not> u_is_active (demo_user\<lparr>u_is_active := False\<rparr>)
   \<and> s_session_token ` set (user_sessions (demo_db\<lparr>users := [demo_user\<lparr>u_is_active := False\<rparr>]\<rparr>))
       = {''refresh.jwt''}
   \<and> create_refresh_token demo_libs demo_cfg 400000 (SubjUUID 1) None = ''refresh.jwt''
   \<and> fst (google_login demo_libs demo_cfg (demo_env\<lparr>now_refresh := 400000\<rparr>)
            (demo_db\<lparr>users := [demo_user\<lparr>u_is_active := False\<rparr>]\<rparr>) ''google-1'' None None)
       = Inl (IntegrityError ''user_sessions.session_token'')
   \<and> user_sessions
         (snd (google_login demo_libs demo_cfg (demo_env\<lparr>now_refresh := 400000\<rparr>)
                 (demo_db\<lparr>users := [demo_user\<lparr>u_is_active := False\<rparr>]\<rparr>) ''google-1'' None None))
       = [demo_session]"
proof -
  let ?u = "demo_user\<lparr>u_is_active := False\<rparr>"
  let ?d = "demo_db\<lparr>users := [?u]\<rparr>"
  let ?E = "demo_env\<lparr>now_refresh := 400000\<rparr>"
  let ?g = "\<lparr>g_email = Some ''A@x.com'', g_sub = Some ''g-1'', g_name = None,
             g_picture = None, g_given_name = None, g_family_name = None,
             g_email_verified = True, g_locale = None\<rparr>"
  have inactive: "\<not> u_is_active ?u" by simp
  have uid: "u_id ?u = 1" by (simp add: demo_user_def)
  have by_email: "get_by_email demo_libs ?d ''A@x.com'' = Inr (Some ?u)"
    by (simp add: get_by_email_def demo_lower demo_user_def)
  have link: "get_auth_provider ?d ''google'' ''g-1'' = Inr (Some demo_link)"
    by (simp add: get_auth_provider_def demo_db_def demo_link_def)
  have g: "g_email ?g = Some ''A@x.com''" "''A@x.com'' \<noteq> []" "g_sub ?g = Some ''g-1''"
          "''g-1'' \<noteq> []"
    by simp_all
  have sessions: "user_sessions ?d = [demo_session]" by (simp add: demo_db_def)
  have tokens: "s_session_token ` set (user_sessions ?d) = {''refresh.jwt''}"
    by (simp add: sessions demo_session_def)
  have minted: "create_refresh_token demo_libs demo_cfg 400000 (SubjUUID 1) None = ''refresh.jwt''"
    using demo_same_second by simp
  have stored: "create_refresh_token demo_libs demo_cfg (now_refresh ?E) (SubjUUID (u_id ?u)) None
                  \<in> s_session_token ` set (user_sessions ?d)"
    by (simp only: tokens uid) (simp add: minted)
  from google_login_collision [OF inactive demo_verify_google(1) g by_email link stored,
                               of None None]
  have "fst (google_login demo_libs demo_cfg ?E ?d ''google-1'' None None)
          = Inl (IntegrityError ''user_sessions.session_token'')
        \<and> user_sessions (snd (google_login demo_libs demo_cfg ?E ?d ''google-1'' None None))
            = [demo_session]"
    by (simp only: sessions)
  with inactive tokens minted show ?thesis by blast
qed

text \<open>
  C9, as the code has it.  \<open>google_login\<close> looks for an existing link by provider and
  Google subject only, never by account.  So when the email of the verified id-token
  matches an account that already has a Google link under another subject, and the new
  subject is not linked yet, the login (one whose refresh token is not a stored session
  token, so that the session is stored) succeeds and appends a second Google link for
  the same account: the account then has two rows for the provider \<open>google\<close>.
\<close>

theorem google_login_second_link:
  assumes verified: "verify_google_token L cfg id_token = Inr g"
      and claims: "g_email g = Some email" "email \<noteq> []" "g_sub g = Some sub" "sub \<noteq> []"
      and by_email: "get_by_email L d email = Inr (Some user)"
      and linked: "old \<in> set (auth_providers d)" "ap_user_id old = u_id user"
                  "ap_provider old = ''google''" "ap_provider_user_id old \<noteq> sub"
      and fresh: "get_auth_provider d ''google'' sub = Inr None"
      and unstored: "create_refresh_token L cfg (now_refresh E) (SubjUUID (u_id user)) None
                       \<notin> s_session_token ` set (user_sessions d)"
  shows "\<exists>resp d' new. google_login L cfg E d id_token device_info ip_address = (Inr resp, d')
           \<and> auth_providers d' = auth_providers d @ [new]
           \<and> ap_user_id new = u_id user \<and> ap_provider new = ''google''
           \<and> ap_provider_user_id new = sub
           \<and> old \<in> set (auth_providers d') \<and> new \<in> set (auth_providers d') \<and> old \<noteq> new"
  using google_login_existing [OF verified claims by_email fresh unstored,
                               of device_info ip_address]
        linked
  by auto

text \<open>On the concrete instance: the account linked to subject \<open>g-1\<close> logs in with
  subject \<open>g-2\<close> and ends with both links.\<close>

theorem google_login_second_link_witness:
  "length (filter (\<lambda>a. ap_user_id a = 1 \<and> ap_provider a = ''google'') (auth_providers demo_db)) = 1
   \<and> (\<exists>resp d'. google_login demo_libs demo_cfg demo_env demo_db ''google-2'' None None
                   = (Inr resp, d')
          \<and> map ap_provider_user_id
                (filter (\<lambda>a. ap_user_id a = 1 \<and> ap_provider a = ''google'') (auth_providers d'))
              = [''g-1'', ''g-2''])"
proof -
  have by_email: "get_by_email demo_libs demo_db ''A@x.com'' = Inr (Some demo_user)"
    by (simp add: get_by_email_def demo_lower demo_user_def demo_db_def)
  have fresh: "get_auth_provider demo_db ''google'' ''g-2'' = Inr None"
    by (simp add: get_auth_provider_def demo_db_def demo_link_def)
  have links: "auth_providers demo_db = [demo_link]" by (simp add: demo_db_def)
  have old: "demo_link \<in> set (auth_providers demo_db)" "ap_user_id demo_link = u_id demo_user"
            "ap_provider demo_link = ''google''" "ap_provider_user_id demo_link \<noteq> ''g-2''"
    by (simp_all add: demo_db_def demo_link_def demo_user_def)
  have g: "g_email \<lparr>g_email = Some ''A@x.com'', g_sub = Some ''g-2'', g_name = None,
                     g_picture = None, g_given_name = None, g_family_name = None,
                     g_email_verified = True, g_locale = None\<rparr> = Some ''A@x.com''"
          "''A@x.com'' \<noteq> []"
          "g_sub \<lparr>g_email = Some ''A@x.com'', g_sub = Some ''g-2'', g_name = None,
                   g_picture = None, g_given_name = None, g_family_name = None,
                   g_email_verified = True, g_locale = None\<rparr> = Some ''g-2''"
          "''g-2'' \<noteq> []"
    by simp_all
  have unstored: "create_refresh_token demo_libs demo_cfg (now_refresh demo_env)
                    (SubjUUID (u_id demo_user)) None
                  \<notin> s_session_token ` set (user_sessions demo_db)"
    using demo_later_second by (simp add: demo_db_def demo_session_def demo_user_def demo_env_def)
  from google_login_second_link
         [OF demo_verify_google(2) g by_email old fresh unstored, of None None]
  obtain resp d' new where
    "google_login demo_libs demo_cfg demo_env demo_db ''google-2'' None None = (Inr resp, d')"
    "auth_providers d' = auth_providers demo_db @ [new]"
    "ap_user_id new = u_id demo_user" "ap_provider new = ''google''"
    "ap_provider_user_id new = ''g-2''"
    by blast
  then show ?thesis
    by (simp add: links demo_link_def demo_user_def)
qed

section \<open>Properties of the onboarding flow\<close>

lemma scalar_one_or_none_Some:
  "scalar_one_or_none xs = Inr (Some x) \<longleftrightarrow> xs = [x]"
  by (cases xs rule: scalar_one_or_none.cases) auto

lemma scalar_one_or_none_None:
  "scalar_one_or_none xs = Inr None \<longleftrightarrow> xs = []"
  by (cases xs rule: scalar_one_or_none.cases) auto

lemma replace_row_single:
  assumes "filter (\<lambda>q. p_user_id q = uid) rows = [old]" and "p_user_id new = uid"
  shows "filter (\<lambda>q. p_user_id q = uid) (replace_row old new rows) = [new]"
proof -
  from assms(1) have "old \<in> set (filter (\<lambda>q. p_user_id q = uid) rows)" by simp
  then have "p_user_id old = uid" by simp
  with assms(2)
  have "filter (\<lambda>q. p_user_id q = uid) (replace_row old new rows)
          = replace_row old new (filter (\<lambda>q. p_user_id q = uid) rows)"
    by (intro filter_replace_row) simp
  with assms(1) show ?thesis by (simp add: replace_row_def)
qed

lemma set_user_life_areas_profiles:
  "user_profiles (snd (set_user_life_areas d clock user_id ids)) = user_profiles d"
  by (simp add: set_user_life_areas_def Let_def)

lemma mark_onboarding_complete_single:
  assumes "filter (\<lambda>q. p_user_id q = uid) (user_profiles d) = [profile]"
  shows "\<exists>p. get_by_user_id (snd (mark_onboarding_complete d profile now)) uid = Inr (Some p)
            \<and> p = fst (mark_onboarding_complete d profile now)
            \<and> p_onboarding_completed p
            \<and> p_identity_locked_until p = Some (now + days 30)
            \<and> p_user_id p = uid"
proof -
  let ?p = "profile\<lparr>p_onboarding_completed := True,
                     p_identity_locked_until := Some (now + days 30)\<rparr>"
  from assms have "profile \<in> set (filter (\<lambda>q. p_user_id q = uid) (user_profiles d))" by simp
  then have uid: "p_user_id ?p = uid" by simp
  from replace_row_single [OF assms uid]
  show ?thesis
    by (simp add: mark_onboarding_complete_def get_by_user_id_def uid Let_def)
qed

lemma prepare_profile_single:
  assumes "get_by_user_id d uid = Inr existing"
  shows "filter (\<lambda>q. p_user_id q = uid)
           (user_profiles (snd
              (case existing of
                 Some ex \<Rightarrow>
                   (let (p, d') = profile_update d ex (Some (d_player_name data))
                                    (d_avatar_url data) (d_bio data) (Some (d_timezone data))
                    in set_identity d' p (d_archetype_id data) (d_life_mode_id data))
               | None \<Rightarrow>
                   profile_create d uid (d_player_name data) (Some (d_archetype_id data))
                     (Some (d_life_mode_id data)) (d_avatar_url data) (d_bio data)
                     (d_timezone data))))
         = [fst (case existing of
                 Some ex \<Rightarrow>
                   (let (p, d') = profile_update d ex (Some (d_player_name data))
                                    (d_avatar_url data) (d_bio data) (Some (d_timezone data))
                    in set_identity d' p (d_archetype_id data) (d_life_mode_id data))
               | None \<Rightarrow>
                   profile_create d uid (d_player_name data) (Some (d_archetype_id data))
                     (Some (d_life_mode_id data)) (d_avatar_url data) (d_bio data)
                     (d_timezone data))]"
proof (cases existing)
  case None
  with assms have "filter (\<lambda>q. p_user_id q = uid) (user_profiles d) = []"
    by (simp add: get_by_user_id_def scalar_one_or_none_None)
  with None show ?thesis by (simp add: profile_create_def Let_def)
next
  case (Some ex)
  with assms have one: "filter (\<lambda>q. p_user_id q = uid) (user_profiles d) = [ex]"
    by (simp add: get_by_user_id_def scalar_one_or_none_Some)
  then have "ex \<in> set (filter (\<lambda>q. p_user_id q = uid) (user_profiles d))" by simp
  then have uid: "p_user_id ex = uid" by simp
  define p4 where "p4 = fst (profile_update d ex (Some (d_player_name data))
                                    (d_avatar_url data) (d_bio data) (Some (d_timezone data)))"
  have p4uid: "p_user_id p4 = uid"
    using uid by (simp add: p4_def profile_update_def Let_def split: option.splits)
  have upd: "profile_update d ex (Some (d_player_name data)) (d_avatar_url data) (d_bio data)
               (Some (d_timezone data))
             = (p4, d\<lparr>user_profiles := replace_row ex p4 (user_profiles d)\<rparr>)"
    by (simp add: p4_def profile_update_def Let_def)
  have one4: "filter (\<lambda>q. p_user_id q = uid) (replace_row ex p4 (user_profiles d)) = [p4]"
    using one p4uid by (rule replace_row_single)
  let ?p5 = "p4\<lparr>p_archetype_id := Some (d_archetype_id data),
                 p_life_mode_id := Some (d_life_mode_id data)\<rparr>"
  have "p_user_id ?p5 = uid" using p4uid by simp
  with one4
  have "filter (\<lambda>q. p_user_id q = uid)
          (replace_row p4 ?p5 (replace_row ex p4 (user_profiles d))) = [?p5]"
    by (rule replace_row_single)
  with Some show ?thesis
    by (simp add: upd set_identity_def Let_def)
qed

lemma finish_onboarding_result:
  assumes "get_by_user_id d uid = Inr existing"
  shows "\<exists>p d' a m. finish_onboarding E d uid data existing
                  = (Inr \<lparr>or_profile = model_validate p a m,
                          or_message = ''Onboarding completed successfully! Your identity is locked for 30 days.''\<rparr>, d')
              \<and> get_by_user_id d' uid = Inr (Some p)
              \<and> p_onboarding_completed p
              \<and> p_identity_locked_until p = Some (now_onboarding E + days 30)"
proof -
  define prep where "prep =
    (case existing of
       Some ex \<Rightarrow>
         (let (p, d') = profile_update d ex (Some (d_player_name data))
                          (d_avatar_url data) (d_bio data) (Some (d_timezone data))
          in set_identity d' p (d_archetype_id data) (d_life_mode_id data))
     | None \<Rightarrow>
         profile_create d uid (d_player_name data) (Some (d_archetype_id data))
           (Some (d_life_mode_id data)) (d_avatar_url data) (d_bio data)
           (d_timezone data))"
  define d2 where "d2 = snd (set_user_life_areas (snd prep) (now_selected E) uid
                               (d_life_area_ids data))"
  define a where "a =
    (case existing of
       Some ex \<Rightarrow> load_archetype d (p_archetype_id ex)
     | None \<Rightarrow> load_archetype d (Some (d_archetype_id data)))"
  define m where "m =
    (case existing of
       Some ex \<Rightarrow> load_life_mode d (p_life_mode_id ex)
     | None \<Rightarrow> load_life_mode d (Some (d_life_mode_id data)))"
  have "filter (\<lambda>q. p_user_id q = uid) (user_profiles (snd prep)) = [fst prep]"
    unfolding prep_def using assms by (rule prepare_profile_single)
  then have "filter (\<lambda>q. p_user_id q = uid) (user_profiles d2) = [fst prep]"
    by (simp add: d2_def set_user_life_areas_profiles)
  from mark_onboarding_complete_single [OF this, of "now_onboarding E"]
  obtain p where p: "get_by_user_id (snd (mark_onboarding_complete d2 (fst prep) (now_onboarding E))) uid
                       = Inr (Some p)"
    "p_onboarding_completed p"
    "p_identity_locked_until p = Some (now_onboarding E + days 30)"
    by blast
  have "finish_onboarding E d uid data existing =
          (case get_by_user_id (snd (mark_onboarding_complete d2 (fst prep) (now_onboarding E))) uid of
             Inl e \<Rightarrow> (Inl e, snd (mark_onboarding_complete d2 (fst prep) (now_onboarding E)))
           | Inr None \<Rightarrow> (Inl (AttributeError ''model_validate''),
                           snd (mark_onboarding_complete d2 (fst prep) (now_onboarding E)))
           | Inr (Some reloaded) \<Rightarrow>
               (Inr \<lparr>or_profile = model_validate reloaded a m,
                     or_message = ''Onboarding completed successfully! Your identity is locked for 30 days.''\<rparr>,
                snd (mark_onboarding_complete d2 (fst prep) (now_onboarding E))))"
    unfolding finish_onboarding_def prep_def [symmetric] d2_def a_def m_def
    by (simp add: Let_def split_beta)
  with p show ?thesis by auto
qed

lemma complete_onboarding_success:
  assumes "complete_onboarding L E d uid data = (Inr resp, d')"
  shows "\<exists>existing. get_by_user_id d uid = Inr existing
           \<and> (\<forall>q. existing = Some q \<longrightarrow> \<not> p_onboarding_completed q)
           \<and> finish_onboarding E d uid data existing = (Inr resp, d')"
  using assms
  by (auto simp: complete_onboarding_def split: sum.splits option.splits if_splits)

text \<open>
  C8.  Whenever \<open>complete_onboarding\<close> completes, which it does only for a user whose
  onboarding was not completed before, the user's profile in the resulting store (the
  profile returned in the response) has \<open>onboarding_completed = True\<close> and
  \<open>identity_locked_until\<close> equal to the clock reading of \<open>mark_onboarding_complete\<close> plus
  exactly 30 days.  It does complete when the user has no completed onboarding, the
  player name is free or the user's own, and the archetype, the life mode and every life
  area exist.  When the user's onboarding is already completed it raises
  \<open>ValidationError\<close> and the store, the profile included, is unchanged.
\<close>

theorem complete_onboarding_lock:
  "(complete_onboarding L E d uid data = (Inr resp, d')
      \<longrightarrow> (\<exists>p. get_by_user_id d' uid = Inr (Some p)
               \<and> pr_profile (or_profile resp) = p
               \<and> p_onboarding_completed p
               \<and> p_identity_locked_until p = Some (now_onboarding E + days 30))
          \<and> (\<forall>q. get_by_user_id d uid = Inr (Some q) \<longrightarrow> \<not> p_onboarding_completed q))
   \<and> (get_by_user_id d uid = Inr existing
        \<and> (\<forall>q. existing = Some q \<longrightarrow> \<not> p_onboarding_completed q)
        \<and> get_by_player_name d (d_player_name data) = Inr holder
        \<and> (\<forall>n. holder = Some n \<longrightarrow> p_user_id n = uid)
        \<and> get_archetype_by_id d (d_archetype_id data) = Inr (Some a)
        \<and> get_life_mode_by_id d (d_life_mode_id data) = Inr (Some m)
        \<and> validate_life_areas L d (d_life_area_ids data) = Inr ()
      \<longrightarrow> (\<exists>r s. complete_onboarding L E d uid data = (Inr r, s)))
   \<and> (get_by_user_id d uid = Inr (Some prior) \<and> p_onboarding_completed prior
      \<longrightarrow> complete_onboarding L E d uid data
            = (Inl (ValidationError ''Onboarding already completed''), d))"
proof (intro conjI impI)
  assume ok: "complete_onboarding L E d uid data = (Inr resp, d')"
  from complete_onboarding_success [OF ok] obtain existing where
    ex: "get_by_user_id d uid = Inr existing"
    and fresh: "\<forall>q. existing = Some q \<longrightarrow> \<not> p_onboarding_completed q"
    and fin: "finish_onboarding E d uid data existing = (Inr resp, d')"
    by blast
  from finish_onboarding_result [OF ex, of E data] fin
  show "\<exists>p. get_by_user_id d' uid = Inr (Some p)
               \<and> pr_profile (or_profile resp) = p
               \<and> p_onboarding_completed p
               \<and> p_identity_locked_until p = Some (now_onboarding E + days 30)"
    by (auto simp: model_validate_def)
  from ex fresh
  show "\<forall>q. get_by_user_id d uid = Inr (Some q) \<longrightarrow> \<not> p_onboarding_completed q"
    by simp
next
  assume pre: "get_by_user_id d uid = Inr existing
        \<and> (\<forall>q. existing = Some q \<longrightarrow> \<not> p_onboarding_completed q)
        \<and> get_by_player_name d (d_player_name data) = Inr holder
        \<and> (\<forall>n. holder = Some n \<longrightarrow> p_user_id n = uid)
        \<and> get_archetype_by_id d (d_archetype_id data) = Inr (Some a)
        \<and> get_life_mode_by_id d (d_life_mode_id data) = Inr (Some m)
        \<and> validate_life_areas L d (d_life_area_ids data) = Inr ()"
  then have "complete_onboarding L E d uid data = finish_onboarding E d uid data existing"
    by (auto simp: complete_onboarding_def split: option.splits)
  moreover from pre have "get_by_user_id d uid = Inr existing" by simp
  from finish_onboarding_result [OF this, of E data]
  have "\<exists>r s. finish_onboarding E d uid data existing = (Inr r, s)" by blast
  ultimately show "\<exists>r s. complete_onboarding L E d uid data = (Inr r, s)" by simp
next
  assume "get_by_user_id d uid = Inr (Some prior) \<and> p_onboarding_completed prior"
  then show "complete_onboarding L E d uid data
               = (Inl (ValidationError ''Onboarding already completed''), d)"
    by (simp add: complete_onboarding_def)
qed

text \<open>On the concrete instance: the first onboarding of user 1 locks the identity until
  30 days after instant 5 s; the second attempt is refused and changes nothing.\<close>

theorem complete_onboarding_lock_witness:
  "\<exists>resp d' p.
     complete_onboarding demo_libs demo_env demo_db 1 demo_request = (Inr resp, d')
     \<and> get_by_user_id d' 1 = Inr (Some p)
     \<and> p_onboarding_completed p
     \<and> p_identity_locked_until p = Some 2592005000000
     \<and> complete_onboarding demo_libs demo_env d' 1 demo_request
         = (Inl (ValidationError ''Onboarding already completed''), d')"
proof -
  have pre: "get_by_user_id demo_db 1 = Inr None
        \<and> (\<forall>q. (None :: user_profile option) = Some q \<longrightarrow> \<not> p_onboarding_completed q)
        \<and> get_by_player_name demo_db (d_player_name demo_request) = Inr None
        \<and> (\<forall>n. (None :: user_profile option) = Some n \<longrightarrow> p_user_id n = 1)
        \<and> get_archetype_by_id demo_db (d_archetype_id demo_request)
            = Inr (Some \<lparr>a_id = 10, a_name = ''Explorer'', a_description = None,
                           a_passive_bonuses = None\<rparr>)
        \<and> get_life_mode_by_id demo_db (d_life_mode_id demo_request)
            = Inr (Some \<lparr>lm_id = 20, lm_name = ''Growth'', lm_description = None,
                           lm_modifiers = None\<rparr>)
        \<and> validate_life_areas demo_libs demo_db (d_life_area_ids demo_request) = Inr ()"
    by (simp add: get_by_user_id_def get_by_player_name_def get_archetype_by_id_def
        get_life_mode_by_id_def get_life_area_by_id_def demo_db_def demo_request_def)
  from complete_onboarding_lock
         [where L = demo_libs and E = demo_env and d = demo_db and uid = 1
            and data = demo_request and existing = None and holder = None] pre
  obtain r s where run: "complete_onboarding demo_libs demo_env demo_db 1 demo_request = (Inr r, s)"
    by blast
  from complete_onboarding_lock
         [where L = demo_libs and E = demo_env and d = demo_db and uid = 1
            and data = demo_request and resp = r and d' = s] run
  obtain p where p: "get_by_user_id s 1 = Inr (Some p)" "p_onboarding_completed p"
    "p_identity_locked_until p = Some (now_onboarding demo_env + days 30)"
    by blast
  from complete_onboarding_lock
         [where L = demo_libs and E = demo_env and d = s and uid = 1
            and data = demo_request and prior = p] p
  have again: "complete_onboarding demo_libs demo_env s 1 demo_request
                 = (Inl (ValidationError ''Onboarding already completed''), s)"
    by blast
  have "now_onboarding demo_env + days 30 = 2592005000000"
    by (simp add: demo_env_def days_def)
  with run p again show ?thesis by auto
qed

end
